theory Spec2Isabelle
  imports Main
begin

section \<open>JavaScript values used by the page controller\<close>

text \<open>
  The controller (static/js/app.js) works on strings, Numbers and the values of parsed
  JSON bodies. Strings are modelled as ASCII texts (\<open>char list\<close>). Every Number the
  controller computes comes from \<open>parseInt\<close> with radix 10, a product and a sum, so it
  is \<open>NaN\<close>, an infinity or an integer-valued double: \<open>Num i\<close> is the double whose
  value is the integer \<open>i\<close>. Negative zero is not told apart from zero: the controller
  only adds, multiplies, compares and prints, where the two agree. Numbers of JSON
  bodies are taken to be integers.
\<close>

datatype number = NaN | Num int | PosInf | NegInf

datatype jsval =
    JUndefined
  | JNull
  | JBool bool
  | JNum number
  | JStr string
  | JObj

datatype error = TypeError | FetchFailed

text \<open>ToBoolean: what \<open>if (v)\<close>, \<open>!v\<close>, \<open>a || b\<close> and \<open>a && b\<close> test.\<close>

fun truthy :: "jsval \<Rightarrow> bool" where
  "truthy JUndefined = False"
| "truthy JNull = False"
| "truthy (JBool b) = b"
| "truthy (JNum NaN) = False"
| "truthy (JNum (Num i)) = (i \<noteq> 0)"
| "truthy (JNum PosInf) = True"
| "truthy (JNum NegInf) = True"
| "truthy (JStr s) = (s \<noteq> [])"
| "truthy JObj = True"

definition js_or :: "jsval \<Rightarrow> jsval \<Rightarrow> jsval" where
  "js_or a b = (if truthy a then a else b)"

definition js_and :: "jsval \<Rightarrow> jsval \<Rightarrow> jsval" where
  "js_and a b = (if truthy a then b else a)"

text \<open>
  \<open>s || d\<close> on a string property: the empty string is falsy. A \<open>dataset\<close> entry can
  also be \<open>undefined\<close> (no such attribute), modelled as \<open>None\<close>.
\<close>

definition str_or :: "string \<Rightarrow> string \<Rightarrow> string" where
  "str_or s d = (if s = [] then d else s)"

definition opt_or :: "string option \<Rightarrow> string \<Rightarrow> string" where
  "opt_or a d = (case a of None \<Rightarrow> d | Some s \<Rightarrow> str_or s d)"

subsection \<open>Numbers\<close>

text \<open>
  IEEE 754 doubles, as far as the controller can reach them. \<open>round_double\<close> is the
  double nearest to an exact integer, ties to even: every integer of magnitude up to
  \<open>2 ^ 53\<close> is a double; a larger one keeps its 53 leading bits, rounded; and from
  \<open>2 ^ 1024\<close> on the result is an infinity. Sums and products of integer-valued doubles
  are the exact results rounded, with the usual rules for infinities.
\<close>

fun bit_length :: "nat \<Rightarrow> nat" where
  "bit_length n = (if n = 0 then 0 else Suc (bit_length (n div 2)))"

declare bit_length.simps [simp del]

definition round_double :: "int \<Rightarrow> number" where
  "round_double i =
     (let a = nat \<bar>i\<bar>
      in if a \<le> 2 ^ 53 then Num i
         else
           (let e = bit_length a - 53;
                q = a div 2 ^ e;
                r = a mod 2 ^ e;
                m = (if 2 ^ (e - 1) < r \<or> (r = 2 ^ (e - 1) \<and> odd q) then q + 1 else q);
                v = m * 2 ^ e
            in if 2 ^ 1024 \<le> v then (if i < 0 then NegInf else PosInf)
               else Num (if i < 0 then - int v else int v)))"

definition sign_of :: "number \<Rightarrow> int" where
  "sign_of x =
     (case x of NaN \<Rightarrow> 0 | Num i \<Rightarrow> sgn i | PosInf \<Rightarrow> 1 | NegInf \<Rightarrow> - 1)"

fun num_add :: "number \<Rightarrow> number \<Rightarrow> number" where
  "num_add NaN y = NaN"
| "num_add x NaN = NaN"
| "num_add (Num a) (Num b) = round_double (a + b)"
| "num_add (Num a) y = y"
| "num_add x (Num b) = x"
| "num_add PosInf PosInf = PosInf"
| "num_add NegInf NegInf = NegInf"
| "num_add PosInf NegInf = NaN"
| "num_add NegInf PosInf = NaN"

fun num_mul :: "number \<Rightarrow> number \<Rightarrow> number" where
  "num_mul NaN y = NaN"
| "num_mul x NaN = NaN"
| "num_mul (Num a) (Num b) = round_double (a * b)"
| "num_mul x y =
     (if sign_of x * sign_of y = 0 then NaN
      else if 0 < sign_of x * sign_of y then PosInf else NegInf)"

fun num_lt :: "number \<Rightarrow> number \<Rightarrow> bool" where
  "num_lt NaN y = False"
| "num_lt x NaN = False"
| "num_lt (Num a) (Num b) = (a < b)"
| "num_lt NegInf NegInf = False"
| "num_lt NegInf y = True"
| "num_lt x PosInf = (x \<noteq> PosInf)"
| "num_lt x y = False"

definition num_le :: "number \<Rightarrow> number \<Rightarrow> bool" where
  "num_le x y = (x \<noteq> NaN \<and> y \<noteq> NaN \<and> \<not> num_lt y x)"

subsection \<open>Decimal digits, \<open>String(n)\<close> and \<open>parseInt(s, 10)\<close>\<close>

text \<open>
  White space, for \<open>parseInt\<close> and \<open>trim\<close> alike: tab, line feed, vertical tab,
  form feed, carriage return and space, the white space and line terminators of
  JavaScript within ASCII.
\<close>

definition is_space :: "char \<Rightarrow> bool" where
  "is_space c = (c \<in> set [CHR 0x09, CHR 0x0A, CHR 0x0B, CHR 0x0C, CHR 0x0D, CHR 0x20])"

definition is_digit :: "char \<Rightarrow> bool" where
  "is_digit c = (48 \<le> (of_char c :: nat) \<and> (of_char c :: nat) \<le> 57)"

definition digit_val :: "char \<Rightarrow> nat" where
  "digit_val c = (of_char c :: nat) - 48"

definition digit_char :: "nat \<Rightarrow> char" where
  "digit_char d = char_of (48 + d)"

fun digits_val :: "nat \<Rightarrow> string \<Rightarrow> nat" where
  "digits_val acc [] = acc"
| "digits_val acc (c # cs) = digits_val (10 * acc + digit_val c) cs"

fun nat_digits :: "nat \<Rightarrow> string" where
  "nat_digits n =
     (if n < 10 then [digit_char n] else nat_digits (n div 10) @ [digit_char (n mod 10)])"

declare nat_digits.simps [simp del]

text \<open>
  \<open>parseInt(s, 10)\<close>: skip leading white space, read an optional sign, then the longest
  run of decimal digits; \<open>NaN\<close> when that run is empty, else the double nearest to the
  integer the digits denote. Whatever follows the digits is ignored. With the radix
  given as 10 no \<open>0x\<close> prefix is recognised. (From the 21st significant digit on the
  standard lets an engine read a digit as 0; no run in this file depends on that.)
\<close>

definition unsigned_part :: "string \<Rightarrow> string" where
  "unsigned_part s =
     (let t = dropWhile is_space s
      in if t \<noteq> [] \<and> (hd t = CHR ''-'' \<or> hd t = CHR ''+'') then tl t else t)"

definition negative :: "string \<Rightarrow> bool" where
  "negative s = (let t = dropWhile is_space s in t \<noteq> [] \<and> hd t = CHR ''-'')"

definition leading_digits :: "string \<Rightarrow> string" where
  "leading_digits s = takeWhile is_digit (unsigned_part s)"

definition parseInt :: "string \<Rightarrow> number" where
  "parseInt s =
     (let ds = leading_digits s
      in if ds = [] then NaN
         else round_double
                (if negative s then - int (digits_val 0 ds) else int (digits_val 0 ds)))"

text \<open>
  \<open>String(v)\<close> on a Number. An integer of magnitude up to \<open>2 ^ 53\<close> prints as its
  decimal digits. A larger double prints the shortest digit string \<open>s\<close> (of \<open>k\<close>
  digits) such that \<open>s * 10 ^ (n - k)\<close> rounds to it, the closest such if there are
  several: padded with zeros when \<open>n \<le> 21\<close>, in exponent notation otherwise.
\<close>

definition decimal :: "int \<Rightarrow> string" where
  "decimal i = (if i < 0 then CHR ''-'' # nat_digits (nat (- i)) else nat_digits (nat i))"

definition candidates :: "nat \<Rightarrow> nat \<Rightarrow> (nat \<times> nat) list" where
  "candidates x k =
     concat (map (\<lambda>n.
       filter (\<lambda>(s, n). 10 ^ (k - 1) \<le> s \<and> s < 10 ^ k \<and>
                 round_double (int (s * 10 ^ (n - k))) = Num (int x))
         [(x div 10 ^ (n - k), n), (Suc (x div 10 ^ (n - k)), n)])
       [length (nat_digits x), Suc (length (nat_digits x))])"

definition distance :: "nat \<Rightarrow> nat \<Rightarrow> nat \<times> nat \<Rightarrow> nat" where
  "distance x k c = (case c of (s, n) \<Rightarrow> nat \<bar>int (s * 10 ^ (n - k)) - int x\<bar>)"

definition closest :: "nat \<Rightarrow> nat \<Rightarrow> (nat \<times> nat) list \<Rightarrow> nat \<times> nat" where
  "closest x k cs =
     fold (\<lambda>c best. if distance x k c < distance x k best then c else best) (tl cs) (hd cs)"

definition shortest :: "nat \<Rightarrow> nat \<times> nat" where
  "shortest x =
     (case find (\<lambda>k. candidates x k \<noteq> []) [1..<Suc (length (nat_digits x))] of
        None \<Rightarrow> (x, length (nat_digits x))
      | Some k \<Rightarrow> closest x k (candidates x k))"

definition big_text :: "nat \<Rightarrow> string" where
  "big_text x =
     (case shortest x of (s, n) \<Rightarrow>
        (let ds = nat_digits s; k = length ds
         in if n \<le> 21 then ds @ replicate (n - k) CHR ''0''
            else hd ds # (if k = 1 then [] else CHR ''.'' # tl ds) @ ''e+'' @ nat_digits (n - 1)))"

fun number_to_string :: "number \<Rightarrow> string" where
  "number_to_string NaN = ''NaN''"
| "number_to_string PosInf = ''Infinity''"
| "number_to_string NegInf = ''-Infinity''"
| "number_to_string (Num i) =
     (if \<bar>i\<bar> \<le> 2 ^ 53 then decimal i
      else if i < 0 then CHR ''-'' # big_text (nat (- i)) else big_text (nat i))"

text \<open>\<open>String(v)\<close> on any value (also what a template literal does).\<close>

fun to_string :: "jsval \<Rightarrow> string" where
  "to_string JUndefined = ''undefined''"
| "to_string JNull = ''null''"
| "to_string (JBool b) = (if b then ''true'' else ''false'')"
| "to_string (JNum n) = number_to_string n"
| "to_string (JStr s) = s"
| "to_string JObj = ''[object Object]''"

text \<open>\<open>s.trim()\<close>: white space removed at both ends.\<close>

definition trim :: "string \<Rightarrow> string" where
  "trim s = rev (dropWhile is_space (rev (dropWhile is_space s)))"

section \<open>Steppers\<close>

text \<open>
  \<open>setupSteppers\<close> registers one click listener on every button matching
  \<open>.stepper .icon-btn\<close>; \<open>stepper_click btn\<close> is that listener. A button is seen
  through the two \<open>dataset\<close> entries the listener reads (\<open>None\<close>: no such attribute).
  The document's elements are seen by id through the four properties the listener reads
  from its target: their values are strings, and a property that is unset reads as the
  empty string. \<open>getElementById\<close> returns \<open>null\<close> (\<open>None\<close>) when no element
  bears the id, and reading a property of \<open>null\<close> throws a TypeError.
\<close>

record stepper_btn =
  dataset_stepTarget :: "string option"
  dataset_step :: "string option"

record input_el =
  input_min :: string
  input_max :: string
  input_step :: string
  input_value :: string

type_synonym inputs = "string \<rightharpoonup> input_el"

text \<open>\<open>document.getElementById(id)\<close>: an \<open>undefined\<close> argument is converted to a string.\<close>

definition getElementById :: "inputs \<Rightarrow> string option \<Rightarrow> input_el option" where
  "getElementById doc ident = doc (case ident of None \<Rightarrow> ''undefined'' | Some s \<Rightarrow> s)"

definition target_id :: "stepper_btn \<Rightarrow> string" where
  "target_id btn = (case dataset_stepTarget btn of None \<Rightarrow> ''undefined'' | Some s \<Rightarrow> s)"

text \<open>The five Numbers the listener parses; each falls back only on a falsy string.\<close>

definition delta_of :: "stepper_btn \<Rightarrow> number" where
  "delta_of btn = parseInt (opt_or (dataset_step btn) ''0'')"

definition min_of :: "input_el \<Rightarrow> number" where
  "min_of input = parseInt (str_or (input_min input) ''-9999'')"

definition max_of :: "input_el \<Rightarrow> number" where
  "max_of input = parseInt (str_or (input_max input) ''9999'')"

definition step_of :: "input_el \<Rightarrow> number" where
  "step_of input = parseInt (str_or (input_step input) ''1'')"

definition value_of :: "input_el \<Rightarrow> number" where
  "value_of input = parseInt (str_or (input_value input) ''0'')"

definition stepper_value :: "number \<Rightarrow> input_el \<Rightarrow> number" where
  "stepper_value delta input =
     (let min_v = min_of input;
          max_v = max_of input;
          step = step_of input;
          val = value_of input;
          val = num_add val (num_mul delta step);
          val = (if num_lt val min_v then min_v else val);
          val = (if num_lt max_v val then max_v else val)
      in val)"

definition stepper_click :: "stepper_btn \<Rightarrow> inputs \<Rightarrow> error + inputs" where
  "stepper_click btn doc =
     (let ident = dataset_stepTarget btn;
          delta = delta_of btn
      in case getElementById doc ident of
           None \<Rightarrow> Inl TypeError
         | Some input \<Rightarrow>
             Inr (doc(target_id btn \<mapsto>
               input\<lparr>input_value := number_to_string (stepper_value delta input)\<rparr>)))"

text \<open>
  A sequence of clicks: each click is an event of its own, and a listener that throws
  has changed nothing, so the document is then as before.
\<close>

definition click :: "stepper_btn \<Rightarrow> inputs \<Rightarrow> inputs" where
  "click btn doc = (case stepper_click btn doc of Inl e \<Rightarrow> doc | Inr doc' \<Rightarrow> doc')"

fun clicks :: "stepper_btn list \<Rightarrow> inputs \<Rightarrow> inputs" where
  "clicks [] doc = doc"
| "clicks (btn # btns) doc = clicks btns (click btn doc)"

text \<open>\<open>min <= value <= max\<close> on what the listener reads from the input.\<close>

definition in_range :: "input_el \<Rightarrow> bool" where
  "in_range input =
     (num_le (min_of input) (value_of input) \<and> num_le (value_of input) (max_of input))"

text \<open>Concrete buttons and inputs used to run the listener.\<close>

definition plus_btn :: stepper_btn where
  "plus_btn = \<lparr>dataset_stepTarget = Some ''weight'', dataset_step = Some ''1''\<rparr>"

definition minus_btn :: stepper_btn where
  "minus_btn = \<lparr>dataset_stepTarget = Some ''weight'', dataset_step = Some ''-1''\<rparr>"

definition bare_btn :: stepper_btn where
  "bare_btn = \<lparr>dataset_stepTarget = None, dataset_step = None\<rparr>"

definition weight_input :: input_el where
  "weight_input =
     \<lparr>input_min = ''30'', input_max = ''300'', input_step = [], input_value = ''300''\<rparr>"

definition inverted_input :: input_el where
  "inverted_input =
     \<lparr>input_min = ''10'', input_max = ''5'', input_step = [], input_value = ''7''\<rparr>"

definition malformed_input :: input_el where
  "malformed_input =
     \<lparr>input_min = ''abc'', input_max = [], input_step = [], input_value = ''-20000''\<rparr>"

definition text_input :: input_el where
  "text_input =
     \<lparr>input_min = [], input_max = [], input_step = [], input_value = ''abc''\<rparr>"

definition blank_input :: input_el where
  "blank_input = \<lparr>input_min = [], input_max = [], input_step = [], input_value = []\<rparr>"

definition huge_input :: input_el where
  "huge_input =
     \<lparr>input_min = ''5'', input_max = ''1000000000000000000000'',
      input_step = ''1000000000'', input_value = ''0''\<rparr>"

definition huge_btn :: stepper_btn where
  "huge_btn = \<lparr>dataset_stepTarget = Some ''weight'', dataset_step = Some ''1000000000000''\<rparr>"

text \<open>
  An input whose bounds read as the integers \<open>lo \<le> hi\<close>, whose step reads as the
  integer \<open>st\<close> and whose value reads as an integer, bounds and value of magnitude at
  most \<open>2 ^ 52\<close>; a button whose multiplier reads as an integer with a product with
  \<open>st\<close> of magnitude at most \<open>2 ^ 52\<close>; and an input displaying the decimal text of
  an integer between the bounds.
\<close>

definition configured :: "int \<Rightarrow> int \<Rightarrow> int \<Rightarrow> input_el \<Rightarrow> bool" where
  "configured lo hi st input =
     (min_of input = Num lo \<and> max_of input = Num hi \<and> lo \<le> hi \<and>
      \<bar>lo\<bar> \<le> 2 ^ 52 \<and> \<bar>hi\<bar> \<le> 2 ^ 52 \<and> step_of input = Num st \<and>
      (\<exists>v. value_of input = Num v \<and> \<bar>v\<bar> \<le> 2 ^ 52))"

definition small_step :: "int \<Rightarrow> stepper_btn \<Rightarrow> bool" where
  "small_step st btn = (\<exists>d. delta_of btn = Num d \<and> \<bar>d * st\<bar> \<le> 2 ^ 52)"

definition shown :: "int \<Rightarrow> int \<Rightarrow> input_el \<Rightarrow> bool" where
  "shown lo hi input = (\<exists>v. input_value input = decimal v \<and> lo \<le> v \<and> v \<le> hi)"

definition off_input :: input_el where
  "off_input =
     \<lparr>input_min = [], input_max = [], input_step = ''3002399751580331'',
      input_value = ''-9007199254740991''\<rparr>"

definition triple_btn :: stepper_btn where
  "triple_btn = \<lparr>dataset_stepTarget = Some ''weight'', dataset_step = Some ''3''\<rparr>"

section \<open>Chip groups\<close>

text \<open>
  A chip container is seen through its descendant elements in document order, each with
  its class list and its \<open>data-value\<close> attribute (\<open>None\<close>: no such attribute, so
  \<open>dataset.value\<close> is \<open>undefined\<close>). An element is referred to by its position in
  that list. The containers of the document are disjoint: no element is a descendant of
  two of them. The document also holds the click listeners registered so far, each with
  the container and chip it was registered on and the \<open>chips\<close> array its closure
  captured, and the tree of each container: \<open>parent_of doc c i\<close> is the position of
  the parent of the element at position \<open>i\<close> of container \<open>c\<close>, \<open>None\<close> when the
  parent is the container itself. The controller never changes that tree.
\<close>

record element =
  classList :: "string set"
  dataset_value :: "string option"

record chip_doc =
  boxes :: "string \<rightharpoonup> element list"
  listeners :: "(string \<times> nat \<times> nat list) list"
  parent_of :: "string \<Rightarrow> nat \<Rightarrow> nat option"

definition classList_add :: "string \<Rightarrow> element \<Rightarrow> element" where
  "classList_add c e = e\<lparr>classList := insert c (classList e)\<rparr>"

definition classList_remove :: "string \<Rightarrow> element \<Rightarrow> element" where
  "classList_remove c e = e\<lparr>classList := classList e - {c}\<rparr>"

text \<open>\<open>box.querySelectorAll('.chip')\<close>: the positions of the elements of class \<open>chip\<close>.\<close>

definition chips_of :: "element list \<Rightarrow> nat list" where
  "chips_of es = filter (\<lambda>i. ''chip'' \<in> classList (es ! i)) [0..<length es]"

text \<open>
  The click listener of \<open>chip\<close>: remove \<open>active\<close> from every element of the captured
  array, then add it to \<open>chip\<close>.
\<close>

definition chip_click :: "nat list \<Rightarrow> nat \<Rightarrow> element list \<Rightarrow> element list" where
  "chip_click chips chip es =
     (let es1 = fold (\<lambda>c es'. es'[c := classList_remove ''active'' (es' ! c)]) chips es
      in es1[chip := classList_add ''active'' (es1 ! chip)])"

definition setChipGroupSingle :: "string \<Rightarrow> jsval \<Rightarrow> chip_doc \<Rightarrow> chip_doc" where
  "setChipGroupSingle containerId defaultVal0 doc =
     (let defaultVal = (if defaultVal0 = JUndefined then JNull else defaultVal0)
      in case boxes doc containerId of
           None \<Rightarrow> doc
         | Some es \<Rightarrow>
             (let chips = chips_of es;
                  doc1 = doc\<lparr>listeners :=
                    listeners doc @ map (\<lambda>chip. (containerId, chip, chips)) chips\<rparr>
              in if truthy defaultVal then
                   (case find (\<lambda>c. dataset_value (es ! c) = Some (to_string defaultVal)) chips of
                      None \<Rightarrow> doc1
                    | Some d \<Rightarrow>
                        doc1\<lparr>boxes := (boxes doc1)(containerId \<mapsto>
                          es[d := classList_add ''active'' (es ! d)])\<rparr>)
                 else doc1))"

text \<open>\<open>box.querySelector('.chip.active')\<close> and the value read from it.\<close>

definition getActiveValue :: "string \<Rightarrow> chip_doc \<Rightarrow> jsval" where
  "getActiveValue containerId doc =
     (case boxes doc containerId of
        None \<Rightarrow> JNull
      | Some es \<Rightarrow>
          (case find (\<lambda>e. ''chip'' \<in> classList e \<and> ''active'' \<in> classList e) es of
             None \<Rightarrow> JNull
           | Some a \<Rightarrow> (case dataset_value a of None \<Rightarrow> JUndefined | Some v \<Rightarrow> JStr v)))"

text \<open>
  The listeners registered on the element at position \<open>target\<close> of a container, run
  in the order of registration.
\<close>

definition run_listener :: "string \<Rightarrow> nat \<Rightarrow> string \<times> nat \<times> nat list \<Rightarrow> chip_doc \<Rightarrow> chip_doc" where
  "run_listener containerId target l doc =
     (case l of (c, chip, chips) \<Rightarrow>
        if c = containerId \<and> chip = target then
          (case boxes doc c of
             None \<Rightarrow> doc
           | Some es \<Rightarrow> doc\<lparr>boxes := (boxes doc)(c \<mapsto> chip_click chips chip es)\<rparr>)
        else doc)"

definition dispatch_at :: "string \<Rightarrow> nat \<Rightarrow> chip_doc \<Rightarrow> chip_doc" where
  "dispatch_at containerId target doc =
     fold (run_listener containerId target) (listeners doc) doc"

text \<open>
  A click bubbles: the listeners of the clicked element run first, then those of its
  parent, and so on up to the container. \<open>path par t\<close> is that chain of positions;
  document order puts a parent before its children, so a parent's position is smaller.
  Above the container no chip listener of the document lies on the way, the containers
  being disjoint.
\<close>

function path :: "(nat \<Rightarrow> nat option) \<Rightarrow> nat \<Rightarrow> nat list" where
  "path par t = t # (case par t of None \<Rightarrow> [] | Some p \<Rightarrow> if p < t then path par p else [])"
  by pat_completeness auto
termination
  by (relation "measure (\<lambda>(par, t). t)") auto

declare path.simps [simp del]

definition click_element :: "string \<Rightarrow> nat \<Rightarrow> chip_doc \<Rightarrow> chip_doc" where
  "click_element containerId target doc =
     (case boxes doc containerId of
        None \<Rightarrow> doc
      | Some es \<Rightarrow>
          if target < length es
          then fold (dispatch_at containerId) (path (parent_of doc containerId) target) doc
          else doc)"






text \<open>The chips of a container that bear the active marker.\<close>

definition active_chips :: "element list \<Rightarrow> nat list" where
  "active_chips es = filter (\<lambda>i. ''active'' \<in> classList (es ! i)) (chips_of es)"




definition odd_box :: "element list" where
  "odd_box =
     [\<lparr>classList = {''chip''}, dataset_value = Some []\<rparr>,
      \<lparr>classList = {''chip''}, dataset_value = Some ''0''\<rparr>,
      \<lparr>classList = {''chip''}, dataset_value = Some ''null''\<rparr>,
      \<lparr>classList = {''chip''}, dataset_value = Some ''4''\<rparr>]"

definition odd_doc :: chip_doc where
  "odd_doc = \<lparr>boxes = [''days_per_week'' \<mapsto> odd_box], listeners = [], parent_of = (\<lambda>c i. None)\<rparr>"


text \<open>The document after the listener of chip \<open>k\<close> has run on the container's elements.\<close>

definition clicked :: "string \<Rightarrow> nat \<Rightarrow> element list \<Rightarrow> chip_doc \<Rightarrow> chip_doc" where
  "clicked cid k es doc =
     doc\<lparr>boxes := (boxes doc)(cid \<mapsto> chip_click (chips_of es) k es)\<rparr>"

definition goal_box :: "element list" where
  "goal_box =
     [\<lparr>classList = {''label''}, dataset_value = None\<rparr>,
      \<lparr>classList = {''chip''}, dataset_value = Some ''hypertrophy''\<rparr>,
      \<lparr>classList = {''chip''}, dataset_value = Some ''fat_loss''\<rparr>,
      \<lparr>classList = {''chip''}, dataset_value = Some ''strength''\<rparr>]"

definition goal_doc :: chip_doc where
  "goal_doc = \<lparr>boxes = [''main_goal'' \<mapsto> goal_box], listeners = [], parent_of = (\<lambda>c i. None)\<rparr>"






section \<open>The page: views, transcript, requests\<close>

text \<open>
  The rest of the controller works on the elements it finds with \<open>$(selector)\<close>, which
  is \<open>null\<close> (\<open>None\<close>) when the document has no such element. A function that throws
  keeps the changes made before the throw, so a result carries the page in both cases.
\<close>

datatype 'a result = Returns 'a | Throws error 'a

fun state_of :: "'a result \<Rightarrow> 'a" where
  "state_of (Returns s) = s"
| "state_of (Throws e s) = s"

fun and_then :: "'a result \<Rightarrow> ('a \<Rightarrow> 'a result) \<Rightarrow> 'a result" where
  "and_then (Returns s) f = f s"
| "and_then (Throws e s) f = Throws e s"

text \<open>
  DOM nodes as \<open>addMessage\<close> builds them: a text node, or an element with its class
  name and children. The transcript container is seen through its children and its
  scroll position. Its layout is the browser's: \<open>content_height\<close> gives the height of
  the rendered children, \<open>scrollHeight\<close> is never below \<open>clientHeight\<close>, and an
  assignment to \<open>scrollTop\<close> is clamped to the scrollable range (CSSOM View).
\<close>

datatype node = Text string | Element string "node list"

record transcript =
  children :: "node list"
  scrollTop :: nat
  clientHeight :: nat
  content_height :: "node list \<Rightarrow> nat"

definition scrollHeight :: "transcript \<Rightarrow> nat" where
  "scrollHeight t = max (content_height t (children t)) (clientHeight t)"

definition max_scroll :: "transcript \<Rightarrow> nat" where
  "max_scroll t = scrollHeight t - clientHeight t"

definition set_scrollTop :: "nat \<Rightarrow> transcript \<Rightarrow> transcript" where
  "set_scrollTop v t = t\<lparr>scrollTop := min v (max_scroll t)\<rparr>"

text \<open>
  \<open>el.textContent = v\<close>: \<open>null\<close> and \<open>undefined\<close> count as the empty string, any
  other value is converted to a string; the children become one text node holding that
  string, or none when it is empty. The string is never parsed.
\<close>

definition dom_string :: "jsval \<Rightarrow> string" where
  "dom_string v = (if v = JNull \<or> v = JUndefined then [] else to_string v)"

definition set_textContent :: "string \<Rightarrow> node list" where
  "set_textContent s = (if s = [] then [] else [Text s])"

text \<open>The body of a response as \<open>res.json()\<close> gives it, seen through the properties read.\<close>

record response =
  ok :: jsval
  profile :: jsval
  profile_summary :: jsval
  error :: jsval
  reply :: jsval

datatype body = Body response | NullBody

datatype fetched = Resolved body | Rejected

record payload =
  weight_kg :: number
  height_cm :: number
  age :: number
  gender :: jsval
  main_goal :: jsval
  experience :: jsval
  days_per_week :: number
  minutes_per_workout :: number
  injuries_yes_no :: bool
  injuries_details :: string

text \<open>
  The page: the class lists of the two view sections, the transcript container, the
  value of the chat input, the \<open>disabled\<close> flag of the send button, whether the start
  button exists, the form inputs by id, the chip groups, the event listeners registered
  by \<open>initialize\<close>, the \<open>alert\<close> calls made so far, and the requests awaiting their
  response.
\<close>

record page =
  onboarding :: "string set option"
  chat :: "string set option"
  messages :: "transcript option"
  chatInput :: "string option"
  sendBtn :: "bool option"
  startBtn :: bool
  form_inputs :: inputs
  chip_groups :: chip_doc
  wired :: "string list"
  alerts :: "string list"
  pending_chat :: "string list"
  pending_onboarding :: "payload list"

definition showOnboarding :: "page \<Rightarrow> page result" where
  "showOnboarding pg =
     (case onboarding pg of
        None \<Rightarrow> Throws TypeError pg
      | Some ob \<Rightarrow>
          (let pg1 = pg\<lparr>onboarding := Some (ob - {''hidden''})\<rparr>
           in case chat pg1 of
                None \<Rightarrow> Throws TypeError pg1
              | Some ch \<Rightarrow> Returns (pg1\<lparr>chat := Some (insert ''hidden'' ch)\<rparr>)))"

definition showChat :: "page \<Rightarrow> page result" where
  "showChat pg =
     (case onboarding pg of
        None \<Rightarrow> Throws TypeError pg
      | Some ob \<Rightarrow>
          (let pg1 = pg\<lparr>onboarding := Some (insert ''hidden'' ob)\<rparr>
           in case chat pg1 of
                None \<Rightarrow> Throws TypeError pg1
              | Some ch \<Rightarrow> Returns (pg1\<lparr>chat := Some (ch - {''hidden''})\<rparr>)))"

definition appendChild :: "node \<Rightarrow> transcript \<Rightarrow> transcript" where
  "appendChild n t = t\<lparr>children := children t @ [n]\<rparr>"

definition message_node :: "jsval \<Rightarrow> jsval \<Rightarrow> node" where
  "message_node role text =
     (let avatar = Element ''avatar''
            (set_textContent (if role = JStr ''assistant'' then ''GB'' else ''You''));
          bubble = Element ''bubble'' (set_textContent (dom_string text))
      in Element (''message '' @ to_string role) [avatar, bubble])"

definition addMessage :: "jsval \<Rightarrow> jsval \<Rightarrow> page \<Rightarrow> page result" where
  "addMessage role text pg =
     (let wrap = message_node role text
      in case messages pg of
           None \<Rightarrow> Throws TypeError pg
         | Some list \<Rightarrow>
             (let list1 = appendChild wrap list;
                  list2 = set_scrollTop (scrollHeight list1) list1
              in Returns (pg\<lparr>messages := Some list2\<rparr>)))"

text \<open>The transcript container after a node was appended and scrolled into view.\<close>

definition posted :: "node \<Rightarrow> transcript \<Rightarrow> transcript" where
  "posted n t = set_scrollTop (scrollHeight (appendChild n t)) (appendChild n t)"

text \<open>A view section is visible when it does not bear the class \<open>hidden\<close>.\<close>

definition visible :: "string set option \<Rightarrow> bool" where
  "visible section = (case section of None \<Rightarrow> False | Some cl \<Rightarrow> ''hidden'' \<notin> cl)"

datatype view_call = ShowOnboarding | ShowChat

fun call_view :: "view_call \<Rightarrow> page \<Rightarrow> page result" where
  "call_view ShowOnboarding pg = showOnboarding pg"
| "call_view ShowChat pg = showChat pg"

fun call_views :: "view_call list \<Rightarrow> page \<Rightarrow> page" where
  "call_views [] pg = pg"
| "call_views (c # cs) pg = call_views cs (state_of (call_view c pg))"

subsection \<open>\<open>initialize\<close>\<close>

text \<open>
  Up to its first \<open>await\<close>, \<open>initialize\<close> registers the stepper listeners and
  configures the six chip groups. It resumes when the profile request settles: with a
  rejected request \<open>initialize\<close> rejects and nothing more happens.
\<close>

definition configure_chips :: "chip_doc \<Rightarrow> chip_doc" where
  "configure_chips doc =
     setChipGroupSingle ''injuries_yes_no'' (JStr ''no'')
       (setChipGroupSingle ''minutes_per_workout'' (JStr ''60'')
         (setChipGroupSingle ''days_per_week'' (JStr ''4'')
           (setChipGroupSingle ''experience'' (JStr ''beginner'')
             (setChipGroupSingle ''main_goal'' (JStr ''hypertrophy'')
               (setChipGroupSingle ''gender'' (JStr ''male'') doc)))))"

definition initialize_begin :: "page \<Rightarrow> page" where
  "initialize_begin pg = pg\<lparr>chip_groups := configure_chips (chip_groups pg)\<rparr>"

definition wire_listeners :: "page \<Rightarrow> page result" where
  "wire_listeners pg =
     (if \<not> startBtn pg then Throws TypeError pg
      else let pg1 = pg\<lparr>wired := wired pg @ [''startBtn.click'']\<rparr>
        in if sendBtn pg1 = None then Throws TypeError pg1
      else let pg2 = pg1\<lparr>wired := wired pg1 @ [''sendBtn.click'']\<rparr>
        in if chatInput pg2 = None then Throws TypeError pg2
      else Returns (pg2\<lparr>wired := wired pg2 @ [''chatInput.keydown'']\<rparr>))"

definition initialize_resume :: "fetched \<Rightarrow> page \<Rightarrow> page result" where
  "initialize_resume f pg =
     (case f of
        Rejected \<Rightarrow> Throws FetchFailed pg
      | Resolved NullBody \<Rightarrow> Throws TypeError pg
      | Resolved (Body p) \<Rightarrow>
          and_then
            (if truthy (js_and (ok p) (profile p)) then
               and_then (showChat pg)
                 (addMessage (JStr ''assistant'')
                    (JStr (''Welcome back. Profile: '' @ to_string (profile_summary p))))
             else showOnboarding pg)
            wire_listeners)"

subsection \<open>The start flow\<close>

definition build_payload :: "page \<Rightarrow> error + payload" where
  "build_payload pg =
     (case form_inputs pg ''weight'' of None \<Rightarrow> Inl TypeError | Some weight \<Rightarrow>
      case form_inputs pg ''height'' of None \<Rightarrow> Inl TypeError | Some height \<Rightarrow>
      case form_inputs pg ''age'' of None \<Rightarrow> Inl TypeError | Some age_el \<Rightarrow>
      case form_inputs pg ''injuries_details'' of None \<Rightarrow> Inl TypeError | Some details \<Rightarrow>
        Inr \<lparr>weight_kg = parseInt (input_value weight),
             height_cm = parseInt (input_value height),
             age = parseInt (input_value age_el),
             gender = getActiveValue ''gender'' (chip_groups pg),
             main_goal = getActiveValue ''main_goal'' (chip_groups pg),
             experience = getActiveValue ''experience'' (chip_groups pg),
             days_per_week =
               parseInt (to_string (getActiveValue ''days_per_week'' (chip_groups pg))),
             minutes_per_workout =
               parseInt (to_string (getActiveValue ''minutes_per_workout'' (chip_groups pg))),
             injuries_yes_no = (getActiveValue ''injuries_yes_no'' (chip_groups pg) = JStr ''yes''),
             injuries_details = trim (input_value details)\<rparr>)"

definition start_begin :: "page \<Rightarrow> page result" where
  "start_begin pg =
     (case build_payload pg of
        Inl e \<Rightarrow> Throws e pg
      | Inr p \<Rightarrow> Returns (pg\<lparr>pending_onboarding := pending_onboarding pg @ [p]\<rparr>))"

definition start_resume :: "fetched \<Rightarrow> page \<Rightarrow> page result" where
  "start_resume f pg =
     (case f of
        Rejected \<Rightarrow> Throws FetchFailed pg
      | Resolved NullBody \<Rightarrow> Throws TypeError pg
      | Resolved (Body res) \<Rightarrow>
          if \<not> truthy (ok res) then
            Returns (pg\<lparr>alerts := alerts pg @
              [to_string (js_or (error res) (JStr ''Please complete the required fields.''))]\<rparr>)
          else
            and_then (showChat pg)
              (addMessage (JStr ''assistant'')
                 (JStr (''Your profile: '' @ to_string (profile_summary res)))))"

subsection \<open>The send flow\<close>

text \<open>
  \<open>send\<close> up to its \<open>await\<close>, and from there on. In the second part \<open>tried\<close> is the
  \<open>try\<close> block, \<open>caught\<close> adds the \<open>catch\<close> block, and the \<open>finally\<close> block runs
  in every case; an exception thrown by \<open>finally\<close> replaces a pending one.
\<close>

definition send_begin :: "page \<Rightarrow> page result" where
  "send_begin pg =
     (case chatInput pg of
        None \<Rightarrow> Throws TypeError pg
      | Some v \<Rightarrow>
          (let text = trim v
           in if text = [] then Returns pg
              else
                and_then (addMessage (JStr ''user'') (JStr text) (pg\<lparr>chatInput := Some []\<rparr>))
                  (\<lambda>pg1. case sendBtn pg1 of
                      None \<Rightarrow> Throws TypeError pg1
                    | Some d \<Rightarrow>
                        Returns (pg1\<lparr>sendBtn := Some True,
                                      pending_chat := pending_chat pg1 @ [text]\<rparr>))))"

definition send_resume :: "fetched \<Rightarrow> page \<Rightarrow> page result" where
  "send_resume f pg =
     (let tried =
            (case f of
               Rejected \<Rightarrow> Throws FetchFailed pg
             | Resolved NullBody \<Rightarrow> Throws TypeError pg
             | Resolved (Body res) \<Rightarrow>
                 if truthy (ok res) then addMessage (JStr ''assistant'') (reply res) pg
                 else addMessage (JStr ''assistant'')
                        (js_or (error res) (JStr ''Error generating reply.'')) pg);
          caught =
            (case tried of
               Returns pg1 \<Rightarrow> Returns pg1
             | Throws e pg1 \<Rightarrow> addMessage (JStr ''assistant'') (JStr ''Network error.'') pg1)
      in case sendBtn (state_of caught) of
           None \<Rightarrow> Throws TypeError (state_of caught)
         | Some d \<Rightarrow>
             (case caught of
                Returns pg2 \<Rightarrow> Returns (pg2\<lparr>sendBtn := Some False\<rparr>)
              | Throws e pg2 \<Rightarrow> Throws e (pg2\<lparr>sendBtn := Some False\<rparr>)))"

subsection \<open>Events\<close>

text \<open>
  What the user and the network can do once \<open>initialize\<close> has run. The browser
  dispatches no click to a disabled button; a key pressed in the chat input reaches its
  \<open>keydown\<close> listener whatever the state of the send button. A chat request settles in
  any order: \<open>ChatSettles i f\<close> settles the \<open>i\<close>-th pending one.
\<close>

datatype event =
    TypeText string
  | ClickSend
  | PressEnter
  | PressOtherKey
  | ChatSettles nat fetched

definition remove_nth :: "nat \<Rightarrow> 'a list \<Rightarrow> 'a list" where
  "remove_nth i xs = take i xs @ drop (Suc i) xs"

fun step :: "event \<Rightarrow> page \<Rightarrow> page" where
  "step (TypeText s) pg = (if chatInput pg = None then pg else pg\<lparr>chatInput := Some s\<rparr>)"
| "step ClickSend pg =
     (if sendBtn pg = Some False \<and> ''sendBtn.click'' \<in> set (wired pg)
      then state_of (send_begin pg) else pg)"
| "step PressEnter pg =
     (if chatInput pg \<noteq> None \<and> ''chatInput.keydown'' \<in> set (wired pg)
      then state_of (send_begin pg) else pg)"
| "step PressOtherKey pg = pg"
| "step (ChatSettles i f) pg =
     (if i < length (pending_chat pg)
      then state_of (send_resume f (pg\<lparr>pending_chat := remove_nth i (pending_chat pg)\<rparr>))
      else pg)"

fun run :: "event list \<Rightarrow> page \<Rightarrow> page" where
  "run [] pg = pg"
| "run (e # es) pg = run es (step e pg)"

text \<open>A page with every element the controller looks up, after \<open>initialize\<close>.\<close>

definition empty_transcript :: transcript where
  "empty_transcript =
     \<lparr>children = [], scrollTop = 0, clientHeight = 100,
      content_height = (\<lambda>ns. 40 * length ns)\<rparr>"

definition fresh_page :: page where
  "fresh_page =
     \<lparr>onboarding = Some {''card''}, chat = Some {''card'', ''hidden''},
      messages = Some empty_transcript, chatInput = Some [], sendBtn = Some False,
      startBtn = True, form_inputs = Map.empty,
      chip_groups = \<lparr>boxes = Map.empty, listeners = [], parent_of = (\<lambda>c i. None)\<rparr>,
      wired = [], alerts = [], pending_chat = [], pending_onboarding = []\<rparr>"

definition ready_page :: page where
  "ready_page = fresh_page\<lparr>wired := [''startBtn.click'', ''sendBtn.click'', ''chatInput.keydown'']\<rparr>"

text \<open>Response bodies of the three endpoints, as the server documents them.\<close>

definition no_body :: response where
  "no_body =
     \<lparr>ok = JUndefined, profile = JUndefined, profile_summary = JUndefined,
      error = JUndefined, reply = JUndefined\<rparr>"

definition profile_found :: response where
  "profile_found =
     no_body\<lparr>ok := JBool True, profile := JObj,
             profile_summary := JStr ''5x/week hypertrophy plan''\<rparr>"

definition profile_missing :: response where
  "profile_missing = no_body\<lparr>ok := JBool False\<rparr>"

definition onboarding_refused :: response where
  "onboarding_refused = no_body\<lparr>ok := JBool False, error := JStr ''Age is required''\<rparr>"

definition onboarding_done :: response where
  "onboarding_done = no_body\<lparr>ok := JBool True, profile_summary := JStr ''3x/week plan''\<rparr>"

definition chat_reply :: response where
  "chat_reply = no_body\<lparr>ok := JBool True, reply := JStr ''Hi there''\<rparr>"

definition chat_refused :: response where
  "chat_refused = no_body\<lparr>ok := JBool False, error := JStr ''Rate limited''\<rparr>"

definition typing_page :: page where
  "typing_page = ready_page\<lparr>chatInput := Some ''  hello ''\<rparr>"

definition waiting_page :: page where
  "waiting_page = ready_page\<lparr>sendBtn := Some True\<rparr>"

definition blank_typing_page :: page where
  "blank_typing_page = ready_page\<lparr>chatInput := Some ''   ''\<rparr>"

section \<open>Facts about the decimal conversions\<close>

lemma digit_char_table:
  "digit_char 0 = CHR ''0''" "digit_char (Suc 0) = CHR ''1''" "digit_char 1 = CHR ''1''"
  "digit_char 2 = CHR ''2''" "digit_char 3 = CHR ''3''" "digit_char 4 = CHR ''4''"
  "digit_char 5 = CHR ''5''" "digit_char 6 = CHR ''6''" "digit_char 7 = CHR ''7''"
  "digit_char 8 = CHR ''8''" "digit_char 9 = CHR ''9''"
  by (simp_all add: digit_char_def char_of_def bit_0 bit_Suc)

lemmas js_eval =
  parseInt_def leading_digits_def unsigned_part_def negative_def round_double_def
  decimal_def is_space_def is_digit_def digit_val_def opt_or_def str_or_def
  nat_digits.simps digit_char_table

lemmas stepper_eval =
  stepper_click_def getElementById_def target_id_def stepper_value_def
  delta_of_def min_of_def max_of_def step_of_def value_of_def click_def

lemma digit_char_is_digit: "d < 10 \<Longrightarrow> is_digit (digit_char d)"
  by (simp add: is_digit_def digit_char_def)

lemma digit_val_digit_char: "d < 10 \<Longrightarrow> digit_val (digit_char d) = d"
  by (simp add: digit_val_def digit_char_def)

lemma digits_val_append:
  "digits_val acc (xs @ ys) = digits_val (digits_val acc xs) ys"
  by (induction xs arbitrary: acc) simp_all

lemma nat_digits_all_digits: "\<forall>c \<in> set (nat_digits n). is_digit c"
proof (induction n rule: nat_digits.induct)
  case (1 n)
  show ?case
  proof (cases "n < 10")
    case True
    then show ?thesis
      by (subst nat_digits.simps) (simp add: digit_char_is_digit)
  next
    case False
    with 1 show ?thesis
      by (subst nat_digits.simps) (simp add: digit_char_is_digit)
  qed
qed

lemma nat_digits_nonempty: "nat_digits n \<noteq> []"
  by (subst nat_digits.simps) simp

lemma digits_val_nat_digits: "digits_val 0 (nat_digits n) = n"
proof (induction n rule: nat_digits.induct)
  case (1 n)
  show ?case
  proof (cases "n < 10")
    case True
    then show ?thesis
      by (subst nat_digits.simps) (simp add: digit_val_digit_char)
  next
    case False
    with 1 show ?thesis
      by (subst nat_digits.simps)
         (simp add: digits_val_append digit_val_digit_char)
  qed
qed

lemma is_digit_not_space: "is_digit c \<Longrightarrow> \<not> is_space c"
  by (auto simp: is_digit_def is_space_def)

lemma is_digit_not_sign: "is_digit c \<Longrightarrow> c \<noteq> CHR ''-'' \<and> c \<noteq> CHR ''+''"
  by (auto simp: is_digit_def)

lemma takeWhile_all: "\<forall>c \<in> set xs. P c \<Longrightarrow> takeWhile P xs = xs"
  by (induction xs) simp_all

lemma round_double_small: "\<bar>i\<bar> \<le> 2 ^ 53 \<Longrightarrow> round_double i = Num i"
  by (simp add: round_double_def Let_def nat_le_iff)

lemma round_double_not_NaN: "round_double i \<noteq> NaN"
  by (simp add: round_double_def Let_def)

lemma parseInt_NaN_iff: "parseInt s = NaN \<longleftrightarrow> leading_digits s = []"
  by (simp add: parseInt_def Let_def round_double_not_NaN)

lemma leading_digits_digits:
  assumes "ds \<noteq> []" and "\<forall>c \<in> set ds. is_digit c"
  shows "leading_digits ds = ds" and "\<not> negative ds"
proof -
  obtain c cs where eq: "ds = c # cs"
    using assms(1) by (cases ds) auto
  have c: "is_digit c" and tw: "takeWhile is_digit cs = cs"
    using assms(2) eq by (simp_all add: takeWhile_all)
  show "leading_digits ds = ds"
    using c is_digit_not_space [OF c] is_digit_not_sign [OF c]
    by (simp add: leading_digits_def unsigned_part_def eq Let_def tw)
  show "\<not> negative ds"
    using is_digit_not_space [OF c] is_digit_not_sign [OF c]
    by (simp add: negative_def eq Let_def)
qed

lemma leading_digits_minus:
  assumes "\<forall>c \<in> set ds. is_digit c"
  shows "leading_digits (CHR ''-'' # ds) = ds" and "negative (CHR ''-'' # ds)"
proof -
  have tw: "takeWhile is_digit ds = ds"
    using assms by (rule takeWhile_all)
  have sp: "\<not> is_space CHR ''-''"
    by (simp add: is_space_def)
  show "leading_digits (CHR ''-'' # ds) = ds"
    by (simp add: leading_digits_def unsigned_part_def Let_def sp tw)
  show "negative (CHR ''-'' # ds)"
    by (simp add: negative_def Let_def sp)
qed

lemma parseInt_nat_digits: "parseInt (nat_digits n) = round_double (int n)"
  using leading_digits_digits [OF nat_digits_nonempty nat_digits_all_digits, of n]
  by (simp add: parseInt_def Let_def digits_val_nat_digits nat_digits_nonempty)

lemma parseInt_neg_nat_digits:
  "parseInt (CHR ''-'' # nat_digits n) = round_double (- int n)"
  using leading_digits_minus [OF nat_digits_all_digits, of n]
  by (simp add: parseInt_def Let_def digits_val_nat_digits nat_digits_nonempty)

lemma parseInt_decimal: "parseInt (decimal i) = round_double i"
  by (simp add: decimal_def parseInt_nat_digits parseInt_neg_nat_digits)

lemma decimal_nonempty: "decimal i \<noteq> []"
  by (simp add: decimal_def nat_digits_nonempty)

lemma number_to_string_small: "\<bar>i\<bar> \<le> 2 ^ 53 \<Longrightarrow> number_to_string (Num i) = decimal i"
  by simp

lemma big_text_nonempty: "big_text x \<noteq> []"
  by (simp add: big_text_def Let_def nat_digits_nonempty split: prod.splits)

lemma number_to_string_nonempty: "number_to_string n \<noteq> []"
  by (cases n) (simp_all add: decimal_nonempty big_text_nonempty)

section \<open>Steppers: what a click does\<close>

lemma getElementById_target: "getElementById doc (dataset_stepTarget btn) = doc (target_id btn)"
  by (simp add: getElementById_def target_id_def)

lemma stepper_click_missing:
  "doc (target_id btn) = None \<Longrightarrow> stepper_click btn doc = Inl TypeError"
  by (simp add: stepper_click_def getElementById_target)

lemma stepper_click_present:
  "doc (target_id btn) = Some input \<Longrightarrow>
   stepper_click btn doc =
     Inr (doc(target_id btn \<mapsto>
       input\<lparr>input_value := number_to_string (stepper_value (delta_of btn) input)\<rparr>))"
  by (simp add: stepper_click_def getElementById_target)

lemma value_of_written:
  "\<bar>v\<bar> \<le> 2 ^ 53 \<Longrightarrow> value_of (input\<lparr>input_value := decimal v\<rparr>) = Num v"
  using decimal_nonempty [of v]
  by (simp add: value_of_def str_or_def parseInt_decimal round_double_small)

text \<open>
  Within these magnitudes the product and the sum are exact, and the listener's two
  tests clamp the sum.
\<close>

lemma stepper_value_exact:
  assumes "min_of input = Num lo" and "max_of input = Num hi"
    and "step_of input = Num st" and "value_of input = Num v"
    and "\<bar>v\<bar> \<le> 2 ^ 52" and "\<bar>d * st\<bar> \<le> 2 ^ 52"
  shows "stepper_value (Num d) input =
           Num (let val = v + d * st;
                    val = (if val < lo then lo else val)
                in if hi < val then hi else val)"
proof -
  have p: "round_double (d * st) = Num (d * st)"
    using assms(6) by (simp add: round_double_small)
  have "\<bar>v + d * st\<bar> \<le> 2 ^ 53"
    using assms(5,6) by simp
  then have s: "round_double (v + d * st) = Num (v + d * st)"
    by (rule round_double_small)
  show ?thesis
    using assms(1-4) by (simp add: stepper_value_def Let_def p s)
qed

lemma stepper_value_clamp:
  assumes "min_of input = Num lo" and "max_of input = Num hi" and "lo \<le> hi"
    and "step_of input = Num st" and "value_of input = Num v"
    and "\<bar>v\<bar> \<le> 2 ^ 52" and "\<bar>d * st\<bar> \<le> 2 ^ 52"
  shows "stepper_value (Num d) input = Num (max lo (min hi (v + d * st)))"
  using stepper_value_exact [OF assms(1,2,4,5,6,7)] assms(3)
  by (auto simp: Let_def)


lemma attrs_after_write:
  "min_of (input\<lparr>input_value := s\<rparr>) = min_of input"
  "max_of (input\<lparr>input_value := s\<rparr>) = max_of input"
  "step_of (input\<lparr>input_value := s\<rparr>) = step_of input"
  by (simp_all add: min_of_def max_of_def step_of_def)

lemma click_other: "target_id btn \<noteq> k \<Longrightarrow> click btn doc k = doc k"
  by (cases "doc (target_id btn)")
     (simp_all add: click_def stepper_click_missing stepper_click_present)

lemma click_target:
  "doc k = Some input \<Longrightarrow> target_id btn = k \<Longrightarrow>
   click btn doc k =
     Some (input\<lparr>input_value := number_to_string (stepper_value (delta_of btn) input)\<rparr>)"
  by (simp add: click_def stepper_click_present)

lemma configured_click_value:
  assumes "configured lo hi st input" and "small_step st btn"
  shows "\<exists>r. stepper_value (delta_of btn) input = Num r \<and> lo \<le> r \<and> r \<le> hi \<and>
           \<bar>r\<bar> \<le> 2 ^ 52"
proof -
  obtain d where d: "delta_of btn = Num d" "\<bar>d * st\<bar> \<le> 2 ^ 52"
    using assms(2) unfolding small_step_def by blast
  obtain v where v: "value_of input = Num v" "\<bar>v\<bar> \<le> 2 ^ 52"
    using assms(1) unfolding configured_def by blast
  have c: "min_of input = Num lo" "max_of input = Num hi" "lo \<le> hi"
    "\<bar>lo\<bar> \<le> 2 ^ 52" "\<bar>hi\<bar> \<le> 2 ^ 52" "step_of input = Num st"
    using assms(1) unfolding configured_def by simp_all
  have "stepper_value (Num d) input = Num (max lo (min hi (v + d * st)))"
    using c(1,2,3,6) v d(2) by (rule stepper_value_clamp)
  moreover have "lo \<le> max lo (min hi (v + d * st))" "max lo (min hi (v + d * st)) \<le> hi"
    using c(3) by simp_all
  moreover have "\<bar>max lo (min hi (v + d * st))\<bar> \<le> 2 ^ 52"
    using c(3,4,5) by (simp add: abs_le_iff max_def min_def)
  ultimately show ?thesis
    using d(1) by auto
qed

lemma shown_value_of:
  assumes "shown lo hi input" and "\<bar>lo\<bar> \<le> 2 ^ 52" and "\<bar>hi\<bar> \<le> 2 ^ 52"
  shows "\<exists>v. input_value input = decimal v \<and> value_of input = Num v \<and> lo \<le> v \<and> v \<le> hi"
proof -
  obtain v where v: "input_value input = decimal v" "lo \<le> v" "v \<le> hi"
    using assms(1) unfolding shown_def by blast
  have "\<bar>v\<bar> \<le> 2 ^ 53"
    using v(2,3) assms(2,3) by (simp add: abs_le_iff)
  moreover have "input\<lparr>input_value := decimal v\<rparr> = input"
    using v(1) by simp
  ultimately have "value_of input = Num v"
    using value_of_written [where input = input and v = v] by simp
  with v show ?thesis by blast
qed

lemma click_step:
  assumes "doc k = Some input" and "configured lo hi st input" and "small_step st btn"
  shows "\<exists>input'. click btn doc k = Some input' \<and> configured lo hi st input' \<and>
           (shown lo hi input \<or> target_id btn = k \<longrightarrow> shown lo hi input')"
proof (cases "target_id btn = k")
  case False
  with assms show ?thesis by (simp add: click_other)
next
  case True
  obtain r where r: "stepper_value (delta_of btn) input = Num r" "lo \<le> r" "r \<le> hi"
    "\<bar>r\<bar> \<le> 2 ^ 52"
    using configured_click_value [where lo = lo and hi = hi and st = st and input = input
        and btn = btn] assms(2,3)
    by blast
  let ?i = "input\<lparr>input_value := decimal r\<rparr>"
  have small: "\<bar>r\<bar> \<le> 2 ^ 53"
    using r(4) by simp
  have "click btn doc k = Some ?i"
    using click_target [where doc = doc and k = k and btn = btn and input = input]
      assms(1) True r(1) small
    by simp
  moreover have "value_of ?i = Num r"
    using small by (rule value_of_written)
  then have "configured lo hi st ?i"
    using assms(2) r(4) by (simp add: configured_def attrs_after_write)
  moreover have "shown lo hi ?i"
    unfolding shown_def using r(2,3) by auto
  ultimately show ?thesis by blast
qed

lemma clicks_steps:
  assumes "doc k = Some input" and "configured lo hi st input"
    and "\<forall>b \<in> set btns. small_step st b"
    and "shown lo hi input \<or> (\<exists>b \<in> set btns. target_id b = k)"
  shows "\<exists>input'. clicks btns doc k = Some input' \<and> configured lo hi st input' \<and>
           shown lo hi input'"
  using assms
proof (induction btns arbitrary: doc input)
  case Nil
  then show ?case by simp
next
  case (Cons b bs)
  obtain i1 where i1: "click b doc k = Some i1" "configured lo hi st i1"
    "shown lo hi input \<or> target_id b = k \<longrightarrow> shown lo hi i1"
    using click_step [where doc = doc and k = k and input = input and lo = lo and hi = hi
        and st = st and btn = b] Cons.prems(1,2,3)
    by auto
  have later: "shown lo hi i1 \<or> (\<exists>b \<in> set bs. target_id b = k)"
    using Cons.prems(4) i1(3) by auto
  have rest: "\<forall>b \<in> set bs. small_step st b"
    using Cons.prems(3) by simp
  from Cons.IH [where doc = "click b doc" and input = i1, OF i1(1) i1(2) rest later]
  show ?case by simp
qed

lemma in_range_between:
  "min_of input = Num lo \<Longrightarrow> max_of input = Num hi \<Longrightarrow> value_of input = Num v \<Longrightarrow>
   in_range input \<longleftrightarrow> lo \<le> v \<and> v \<le> hi"
  by (auto simp: in_range_def num_le_def)

lemmas big_eval =
  bit_length.simps big_text_def shortest_def candidates_def closest_def distance_def

text \<open>
  Claim C3 (amended). Take an input whose \<open>min\<close>, \<open>max\<close>, step and current value read
  as integers, with \<open>min \<le> max\<close> and bounds and value of magnitude at most \<open>2 ^ 52\<close>,
  and any sequence of clicks on stepper buttons whose multiplier reads as an integer
  whose product with the step has magnitude at most \<open>2 ^ 52\<close>, at least one of them
  bound to this input. After the sequence the input displays the decimal text of an
  integer \<open>v'\<close> with \<open>min \<le> v' \<le> max\<close>, its bounds unchanged. A single click on a
  button bound to the input writes \<open>currentValue + multiplier * step\<close> clamped to
  \<open>[min, max]\<close>. Every prefix of a click sequence is a click sequence, so the bound holds
  after each click.
\<close>

theorem stepper_clicks_clamped:
  assumes "doc k = Some input"
    and "min_of input = Num lo" and "max_of input = Num hi" and "lo \<le> hi"
    and "\<bar>lo\<bar> \<le> 2 ^ 52" and "\<bar>hi\<bar> \<le> 2 ^ 52"
    and "step_of input = Num st" and "value_of input = Num v" and "\<bar>v\<bar> \<le> 2 ^ 52"
    and "\<forall>b \<in> set btns. \<exists>d. delta_of b = Num d \<and> \<bar>d * st\<bar> \<le> 2 ^ 52"
    and "\<exists>b \<in> set btns. target_id b = k"
  shows "(\<exists>input' v'. clicks btns doc k = Some input' \<and>
            min_of input' = Num lo \<and> max_of input' = Num hi \<and>
            input_value input' = decimal v' \<and> value_of input' = Num v' \<and>
            lo \<le> v' \<and> v' \<le> hi \<and> in_range input') \<and>
         (\<forall>b d. target_id b = k \<and> delta_of b = Num d \<and> \<bar>d * st\<bar> \<le> 2 ^ 52 \<longrightarrow>
            stepper_click b doc =
              Inr (doc(k \<mapsto> input\<lparr>input_value :=
                     decimal (max lo (min hi (v + d * st)))\<rparr>)))"
proof
  have conf: "configured lo hi st input"
    using assms(2-9) by (simp add: configured_def)
  have steps: "\<forall>b \<in> set btns. small_step st b"
    using assms(10) by (simp add: small_step_def)
  have later: "shown lo hi input \<or> (\<exists>b \<in> set btns. target_id b = k)"
    using assms(11) by blast
  obtain input' where i: "clicks btns doc k = Some input'" "configured lo hi st input'"
    "shown lo hi input'"
    using clicks_steps [where doc = doc and k = k and input = input and lo = lo and hi = hi
        and st = st and btns = btns] assms(1) conf steps later
    by blast
  obtain v' where v': "input_value input' = decimal v'" "value_of input' = Num v'"
    "lo \<le> v'" "v' \<le> hi"
    using shown_value_of [OF i(3) assms(5,6)] by blast
  have b: "min_of input' = Num lo" "max_of input' = Num hi"
    using i(2) by (simp_all add: configured_def)
  have "in_range input'"
    using in_range_between [OF b v'(2)] v'(3,4) by simp
  with i(1) b v' show "\<exists>input' v'. clicks btns doc k = Some input' \<and>
            min_of input' = Num lo \<and> max_of input' = Num hi \<and>
            input_value input' = decimal v' \<and> value_of input' = Num v' \<and>
            lo \<le> v' \<and> v' \<le> hi \<and> in_range input'"
    by blast
next
  show "\<forall>b d. target_id b = k \<and> delta_of b = Num d \<and> \<bar>d * st\<bar> \<le> 2 ^ 52 \<longrightarrow>
            stepper_click b doc =
              Inr (doc(k \<mapsto> input\<lparr>input_value :=
                     decimal (max lo (min hi (v + d * st)))\<rparr>))"
  proof (intro allI impI)
    fix b d
    assume bd: "target_id b = k \<and> delta_of b = Num d \<and> \<bar>d * st\<bar> \<le> 2 ^ 52"
    then have small: "\<bar>d * st\<bar> \<le> 2 ^ 52" by simp
    have val: "stepper_value (Num d) input = Num (max lo (min hi (v + d * st)))"
      using assms(2,3,4,7,8,9) small by (rule stepper_value_clamp)
    have "\<bar>max lo (min hi (v + d * st))\<bar> \<le> 2 ^ 53"
      using assms(4,5,6) by (simp add: abs_le_iff max_def min_def)
    then have printed: "number_to_string (Num (max lo (min hi (v + d * st)))) =
        decimal (max lo (min hi (v + d * st)))"
      by (rule number_to_string_small)
    have "doc (target_id b) = Some input"
      using bd assms(1) by simp
    then show "stepper_click b doc =
              Inr (doc(k \<mapsto> input\<lparr>input_value :=
                     decimal (max lo (min hi (v + d * st)))\<rparr>))"
      using bd val printed by (simp add: stepper_click_present del: number_to_string.simps)
  qed
qed

theorem stepper_clicks_clamped_witness:
  "[''weight'' \<mapsto> weight_input] ''weight'' = Some weight_input \<and>
   min_of weight_input = Num 30 \<and> max_of weight_input = Num 300 \<and>
   step_of weight_input = Num 1 \<and> value_of weight_input = Num 300 \<and>
   delta_of plus_btn = Num 1 \<and> delta_of minus_btn = Num (- 1) \<and>
   target_id plus_btn = ''weight'' \<and>
   (\<exists>input' v'. clicks [plus_btn, minus_btn] [''weight'' \<mapsto> weight_input] ''weight'' = Some input' \<and>
      min_of input' = Num 30 \<and> max_of input' = Num 300 \<and>
      input_value input' = decimal v' \<and> value_of input' = Num v' \<and>
      30 \<le> v' \<and> v' \<le> 300 \<and> in_range input') \<and>
   stepper_click plus_btn [''weight'' \<mapsto> weight_input] =
     Inr [''weight'' \<mapsto> weight_input\<lparr>input_value := ''300''\<rparr>]"
proof -
  have facts: "min_of weight_input = Num 30" "max_of weight_input = Num 300"
    "step_of weight_input = Num 1" "value_of weight_input = Num 300"
    "delta_of plus_btn = Num 1" "delta_of minus_btn = Num (- 1)"
    "target_id plus_btn = ''weight''"
    by (simp_all add: weight_input_def plus_btn_def minus_btn_def stepper_eval js_eval)
  have run: "stepper_click plus_btn [''weight'' \<mapsto> weight_input] =
     Inr [''weight'' \<mapsto> weight_input\<lparr>input_value := ''300''\<rparr>]"
    by (simp add: weight_input_def plus_btn_def stepper_eval js_eval)
  from stepper_clicks_clamped [where doc = "[''weight'' \<mapsto> weight_input]" and k = "''weight''"
      and input = weight_input and lo = 30 and hi = 300 and st = 1 and v = 300
      and btns = "[plus_btn, minus_btn]"] facts run
  show ?thesis
    by simp
qed

text \<open>
  Four runs against the claim as stated. With \<open>min = 10\<close> above \<open>max = 5\<close> the two tests
  of the listener leave the value at the maximum, below the minimum. A current value
  that is no number makes the listener write \<open>NaN\<close>. With a step of \<open>10 ^ 9\<close> and a
  multiplier of \<open>10 ^ 12\<close> under a maximum of \<open>10 ^ 21\<close> the listener writes \<open>1e+21\<close>,
  which the next click reads as 1, below the minimum 5. And with the value
  \<open>- (2 ^ 53 - 1)\<close>, step 3002399751580331 and multiplier 3 the product \<open>2 ^ 53 + 1\<close> is
  rounded to \<open>2 ^ 53\<close>, so the listener writes 1 where \<open>currentValue + multiplier * step\<close>
  is 2.
\<close>

theorem stepper_inverted_bounds_counterexample:
  "clicks [plus_btn] [''weight'' \<mapsto> inverted_input] ''weight'' =
     Some (inverted_input\<lparr>input_value := ''5''\<rparr>) \<and>
   min_of (inverted_input\<lparr>input_value := ''5''\<rparr>) = Num 10 \<and>
   value_of (inverted_input\<lparr>input_value := ''5''\<rparr>) = Num 5 \<and>
   \<not> in_range (inverted_input\<lparr>input_value := ''5''\<rparr>) \<and>
   clicks [plus_btn] [''weight'' \<mapsto> text_input] ''weight'' =
     Some (text_input\<lparr>input_value := ''NaN''\<rparr>) \<and>
   value_of (text_input\<lparr>input_value := ''NaN''\<rparr>) = NaN \<and>
   \<not> in_range (text_input\<lparr>input_value := ''NaN''\<rparr>) \<and>
   clicks [huge_btn] [''weight'' \<mapsto> huge_input] ''weight'' =
     Some (huge_input\<lparr>input_value := ''1e+21''\<rparr>) \<and>
   min_of (huge_input\<lparr>input_value := ''1e+21''\<rparr>) = Num 5 \<and>
   value_of (huge_input\<lparr>input_value := ''1e+21''\<rparr>) = Num 1 \<and>
   \<not> in_range (huge_input\<lparr>input_value := ''1e+21''\<rparr>) \<and>
   value_of off_input = Num (- 9007199254740991) \<and>
   step_of off_input = Num 3002399751580331 \<and> delta_of triple_btn = Num 3 \<and>
   - 9007199254740991 + 3 * 3002399751580331 = (2 :: int) \<and>
   clicks [triple_btn] [''weight'' \<mapsto> off_input] ''weight'' =
     Some (off_input\<lparr>input_value := ''1''\<rparr>)"
proof -
  have inverted: "clicks [plus_btn] [''weight'' \<mapsto> inverted_input] ''weight'' =
     Some (inverted_input\<lparr>input_value := ''5''\<rparr>) \<and>
   min_of (inverted_input\<lparr>input_value := ''5''\<rparr>) = Num 10 \<and>
   value_of (inverted_input\<lparr>input_value := ''5''\<rparr>) = Num 5 \<and>
   \<not> in_range (inverted_input\<lparr>input_value := ''5''\<rparr>)"
    by (simp add: inverted_input_def plus_btn_def in_range_def num_le_def stepper_eval js_eval)
  have nan: "clicks [plus_btn] [''weight'' \<mapsto> text_input] ''weight'' =
     Some (text_input\<lparr>input_value := ''NaN''\<rparr>) \<and>
   value_of (text_input\<lparr>input_value := ''NaN''\<rparr>) = NaN \<and>
   \<not> in_range (text_input\<lparr>input_value := ''NaN''\<rparr>)"
    by (simp add: text_input_def plus_btn_def in_range_def num_le_def stepper_eval js_eval)
  have huge: "clicks [huge_btn] [''weight'' \<mapsto> huge_input] ''weight'' =
     Some (huge_input\<lparr>input_value := ''1e+21''\<rparr>)"
    by (simp add: huge_btn_def huge_input_def stepper_eval js_eval big_eval Let_def)
  have read: "min_of (huge_input\<lparr>input_value := ''1e+21''\<rparr>) = Num 5 \<and>
   value_of (huge_input\<lparr>input_value := ''1e+21''\<rparr>) = Num 1 \<and>
   \<not> in_range (huge_input\<lparr>input_value := ''1e+21''\<rparr>)"
    by (simp add: huge_input_def in_range_def num_le_def stepper_eval js_eval Let_def)
  have off: "value_of off_input = Num (- 9007199254740991) \<and>
   step_of off_input = Num 3002399751580331 \<and> delta_of triple_btn = Num 3 \<and>
   - 9007199254740991 + 3 * 3002399751580331 = (2 :: int) \<and>
   clicks [triple_btn] [''weight'' \<mapsto> off_input] ''weight'' =
     Some (off_input\<lparr>input_value := ''1''\<rparr>)"
    by (simp add: triple_btn_def off_input_def stepper_eval js_eval big_eval Let_def)
  from inverted nan huge read off show ?thesis by blast
qed

text \<open>
  Claim C1 (amended). A stepper click throws (a TypeError) exactly when no element bears
  the id that the button's target attribute names, and otherwise returns. The step
  multiplier is 0 when the button's step attribute is absent or empty, and the bound
  input's min, max, step and current value are -9999, 9999, 1 and 0 when the
  corresponding attribute is unset (reads as the empty string). An attribute that is set
  is parsed as it stands, with no fallback: it reads as \<open>NaN\<close> exactly when no digit
  follows its leading white space and optional sign. When the target exists and the five
  values read as integers, with min, max and value of magnitude at most \<open>2 ^ 52\<close> and
  a product of multiplier and step of magnitude at most \<open>2 ^ 52\<close>, the value written
  back is the decimal text of an integer.
\<close>

theorem stepper_click_defaults:
  "(stepper_click btn doc = Inl TypeError \<longleftrightarrow> doc (target_id btn) = None) \<and>
   (doc (target_id btn) \<noteq> None \<longrightarrow> (\<exists>doc'. stepper_click btn doc = Inr doc')) \<and>
   (dataset_step btn = None \<or> dataset_step btn = Some [] \<longrightarrow> delta_of btn = Num 0) \<and>
   (input_min input = [] \<longrightarrow> min_of input = Num (- 9999)) \<and>
   (input_max input = [] \<longrightarrow> max_of input = Num 9999) \<and>
   (input_step input = [] \<longrightarrow> step_of input = Num 1) \<and>
   (input_value input = [] \<longrightarrow> value_of input = Num 0) \<and>
   (dataset_step btn = Some s \<and> s \<noteq> [] \<longrightarrow> delta_of btn = parseInt s) \<and>
   (input_min input \<noteq> [] \<longrightarrow> min_of input = parseInt (input_min input)) \<and>
   (input_max input \<noteq> [] \<longrightarrow> max_of input = parseInt (input_max input)) \<and>
   (input_step input \<noteq> [] \<longrightarrow> step_of input = parseInt (input_step input)) \<and>
   (input_value input \<noteq> [] \<longrightarrow> value_of input = parseInt (input_value input)) \<and>
   (parseInt t = NaN \<longleftrightarrow> leading_digits t = []) \<and>
   (doc (target_id btn) = Some input \<and> delta_of btn = Num d \<and> min_of input = Num lo \<and>
    max_of input = Num hi \<and> step_of input = Num st \<and> value_of input = Num v \<and>
    \<bar>lo\<bar> \<le> 2 ^ 52 \<and> \<bar>hi\<bar> \<le> 2 ^ 52 \<and> \<bar>v\<bar> \<le> 2 ^ 52 \<and> \<bar>d * st\<bar> \<le> 2 ^ 52 \<longrightarrow>
      (\<exists>r. \<bar>r\<bar> \<le> 2 ^ 53 \<and>
         stepper_click btn doc =
           Inr (doc(target_id btn \<mapsto> input\<lparr>input_value := decimal r\<rparr>))))"
proof -
  have throws: "stepper_click btn doc = Inl TypeError \<longleftrightarrow> doc (target_id btn) = None"
    by (cases "doc (target_id btn)")
       (simp_all add: stepper_click_missing stepper_click_present del: number_to_string.simps)
  have returns: "doc (target_id btn) \<noteq> None \<longrightarrow> (\<exists>doc'. stepper_click btn doc = Inr doc')"
    by (cases "doc (target_id btn)")
       (simp_all add: stepper_click_present del: number_to_string.simps)
  have delta: "dataset_step btn = None \<or> dataset_step btn = Some [] \<longrightarrow> delta_of btn = Num 0"
    by (auto simp: delta_of_def js_eval)
  have lo: "input_min input = [] \<longrightarrow> min_of input = Num (- 9999)"
    by (simp add: min_of_def js_eval)
  have hi: "input_max input = [] \<longrightarrow> max_of input = Num 9999"
    by (simp add: max_of_def js_eval)
  have st: "input_step input = [] \<longrightarrow> step_of input = Num 1"
    by (simp add: step_of_def js_eval)
  have v: "input_value input = [] \<longrightarrow> value_of input = Num 0"
    by (simp add: value_of_def js_eval)
  have as_set: "dataset_step btn = Some s \<and> s \<noteq> [] \<longrightarrow> delta_of btn = parseInt s"
    "input_min input \<noteq> [] \<longrightarrow> min_of input = parseInt (input_min input)"
    "input_max input \<noteq> [] \<longrightarrow> max_of input = parseInt (input_max input)"
    "input_step input \<noteq> [] \<longrightarrow> step_of input = parseInt (input_step input)"
    "input_value input \<noteq> [] \<longrightarrow> value_of input = parseInt (input_value input)"
    by (simp_all add: delta_of_def min_of_def max_of_def step_of_def value_of_def
        opt_or_def str_or_def)
  have nan: "parseInt t = NaN \<longleftrightarrow> leading_digits t = []"
    by (rule parseInt_NaN_iff)
  have written: "doc (target_id btn) = Some input \<and> delta_of btn = Num d \<and>
      min_of input = Num lo \<and> max_of input = Num hi \<and> step_of input = Num st \<and>
      value_of input = Num v \<and>
      \<bar>lo\<bar> \<le> 2 ^ 52 \<and> \<bar>hi\<bar> \<le> 2 ^ 52 \<and> \<bar>v\<bar> \<le> 2 ^ 52 \<and> \<bar>d * st\<bar> \<le> 2 ^ 52 \<longrightarrow>
      (\<exists>r. \<bar>r\<bar> \<le> 2 ^ 53 \<and>
         stepper_click btn doc =
           Inr (doc(target_id btn \<mapsto> input\<lparr>input_value := decimal r\<rparr>)))"
  proof
    assume h: "doc (target_id btn) = Some input \<and> delta_of btn = Num d \<and>
      min_of input = Num lo \<and> max_of input = Num hi \<and> step_of input = Num st \<and>
      value_of input = Num v \<and>
      \<bar>lo\<bar> \<le> 2 ^ 52 \<and> \<bar>hi\<bar> \<le> 2 ^ 52 \<and> \<bar>v\<bar> \<le> 2 ^ 52 \<and> \<bar>d * st\<bar> \<le> 2 ^ 52"
    let ?r = "let val = v + d * st; val = (if val < lo then lo else val)
              in if hi < val then hi else val"
    have val: "stepper_value (Num d) input = Num ?r"
      using h by (simp add: stepper_value_exact)
    have small: "\<bar>?r\<bar> \<le> 2 ^ 53"
      using h by (simp add: Let_def abs_le_iff)
    then have "number_to_string (Num ?r) = decimal ?r"
      by (rule number_to_string_small)
    with h val have "stepper_click btn doc =
           Inr (doc(target_id btn \<mapsto> input\<lparr>input_value := decimal ?r\<rparr>))"
      by (simp add: stepper_click_present del: number_to_string.simps)
    with small show "\<exists>r. \<bar>r\<bar> \<le> 2 ^ 53 \<and>
         stepper_click btn doc =
           Inr (doc(target_id btn \<mapsto> input\<lparr>input_value := decimal r\<rparr>))"
      by blast
  qed
  from throws returns delta lo hi st v as_set nan written show ?thesis
    by blast
qed

theorem stepper_click_defaults_witness:
  "dataset_step bare_btn = None \<and> target_id bare_btn = ''undefined'' \<and>
   [''undefined'' \<mapsto> blank_input] (target_id bare_btn) = Some blank_input \<and>
   delta_of bare_btn = Num 0 \<and>
   min_of blank_input = Num (- 9999) \<and> max_of blank_input = Num 9999 \<and>
   step_of blank_input = Num 1 \<and> value_of blank_input = Num 0 \<and>
   (\<exists>r. \<bar>r\<bar> \<le> 2 ^ 53 \<and> stepper_click bare_btn [''undefined'' \<mapsto> blank_input] =
      Inr [''undefined'' \<mapsto> blank_input\<lparr>input_value := decimal r\<rparr>]) \<and>
   stepper_click bare_btn [''undefined'' \<mapsto> blank_input] =
      Inr [''undefined'' \<mapsto> blank_input\<lparr>input_value := ''0''\<rparr>] \<and>
   dataset_step minus_btn = Some ''-1'' \<and> delta_of minus_btn = parseInt ''-1'' \<and>
   input_min malformed_input = ''abc'' \<and> leading_digits ''abc'' = [] \<and>
   min_of malformed_input = NaN \<and>
   value_of malformed_input = parseInt ''-20000''"
proof -
  have given: "dataset_step bare_btn = None" "target_id bare_btn = ''undefined''"
    "input_min blank_input = []" "input_max blank_input = []"
    "input_step blank_input = []" "input_value blank_input = []"
    "dataset_step minus_btn = Some ''-1''" "input_min malformed_input = ''abc''"
    "input_value malformed_input = ''-20000''" "leading_digits ''abc'' = []"
    by (simp_all add: bare_btn_def blank_input_def minus_btn_def malformed_input_def
        target_id_def js_eval)
  have run: "stepper_click bare_btn [''undefined'' \<mapsto> blank_input] =
      Inr [''undefined'' \<mapsto> blank_input\<lparr>input_value := ''0''\<rparr>]"
    by (simp add: bare_btn_def blank_input_def stepper_eval js_eval)
  from stepper_click_defaults [where btn = bare_btn and input = blank_input
      and doc = "[''undefined'' \<mapsto> blank_input]" and d = 0 and lo = "- 9999" and hi = 9999
      and st = 1 and v = 0]
    stepper_click_defaults [where btn = minus_btn and input = malformed_input
      and s = "''-1''" and t = "''abc''"]
    given run
  show ?thesis
    by simp
qed

text \<open>
  Four runs against the claim as stated: a button whose target names no element makes
  the listener throw; a non-numeric \<open>min\<close> reads as \<open>NaN\<close>, so nothing is clamped below
  (the default -9999 would have clamped -20001); a non-numeric current value makes the
  listener write the text \<open>NaN\<close>; and with numeric attributes of large magnitude the
  listener writes \<open>1e+21\<close>, which is not the decimal text of an integer.
\<close>

theorem stepper_click_defaults_counterexample:
  "stepper_click bare_btn Map.empty = Inl TypeError \<and>
   min_of malformed_input = NaN \<and>
   stepper_click minus_btn [''weight'' \<mapsto> malformed_input] =
     Inr [''weight'' \<mapsto> malformed_input\<lparr>input_value := ''-20001''\<rparr>] \<and>
   stepper_click plus_btn [''weight'' \<mapsto> text_input] =
     Inr [''weight'' \<mapsto> text_input\<lparr>input_value := ''NaN''\<rparr>] \<and>
   stepper_click huge_btn [''weight'' \<mapsto> huge_input] =
     Inr [''weight'' \<mapsto> huge_input\<lparr>input_value := ''1e+21''\<rparr>]"
proof -
  have small: "stepper_click bare_btn Map.empty = Inl TypeError \<and>
   min_of malformed_input = NaN \<and>
   stepper_click minus_btn [''weight'' \<mapsto> malformed_input] =
     Inr [''weight'' \<mapsto> malformed_input\<lparr>input_value := ''-20001''\<rparr>] \<and>
   stepper_click plus_btn [''weight'' \<mapsto> text_input] =
     Inr [''weight'' \<mapsto> text_input\<lparr>input_value := ''NaN''\<rparr>]"
    by (simp add: bare_btn_def minus_btn_def plus_btn_def malformed_input_def text_input_def
        stepper_eval js_eval)
  have huge: "stepper_click huge_btn [''weight'' \<mapsto> huge_input] =
     Inr [''weight'' \<mapsto> huge_input\<lparr>input_value := ''1e+21''\<rparr>]"
    by (simp add: huge_btn_def huge_input_def stepper_eval js_eval big_eval Let_def)
  from small huge show ?thesis by blast
qed

section \<open>Chip groups: clicks and configuration\<close>


























lemma find_in_set: "find P xs = Some x \<Longrightarrow> x \<in> set xs \<and> P x"
  by (induction xs) (auto split: if_splits)

lemma find_first_sorted:
  "sorted xs \<Longrightarrow> find P xs = Some x \<Longrightarrow> y \<in> set xs \<Longrightarrow> P y \<Longrightarrow> x \<le> (y::nat)"
  by (induction xs) (auto split: if_splits)

lemma find_None_none: "find P xs = None \<Longrightarrow> y \<in> set xs \<Longrightarrow> \<not> P y"
  by (induction xs) (auto split: if_splits)

lemma sorted_chips_of: "sorted (chips_of es)"
  by (simp add: chips_of_def sorted_wrt_filter)





lemma setChipGroupSingle_falsy:
  "\<not> truthy d \<Longrightarrow> boxes (setChipGroupSingle cid d doc) = boxes doc"
  by (cases d) (simp_all add: setChipGroupSingle_def Let_def split: option.splits)

lemma setChipGroupSingle_truthy:
  assumes "truthy d" and "boxes doc cid = Some es"
  shows "boxes (setChipGroupSingle cid d doc) cid =
     (case find (\<lambda>c. dataset_value (es ! c) = Some (to_string d)) (chips_of es) of
        None \<Rightarrow> Some es
      | Some i \<Rightarrow> Some (es[i := classList_add ''active'' (es ! i)]))"
proof -
  have "d \<noteq> JUndefined" using assms(1) by auto
  with assms show ?thesis
    by (simp add: setChipGroupSingle_def Let_def split: option.splits)
qed

lemma setChipGroupSingle_box:
  assumes "boxes doc cid = Some es"
  shows "boxes (setChipGroupSingle cid d doc) cid = Some es \<or>
         (\<exists>i \<in> set (chips_of es). truthy d \<and> dataset_value (es ! i) = Some (to_string d) \<and>
            boxes (setChipGroupSingle cid d doc) cid =
              Some (es[i := classList_add ''active'' (es ! i)]))"
proof (cases "truthy d")
  case False
  then show ?thesis using assms by (simp add: setChipGroupSingle_falsy)
next
  case True
  show ?thesis
  proof (cases "find (\<lambda>c. dataset_value (es ! c) = Some (to_string d)) (chips_of es)")
    case None
    with setChipGroupSingle_truthy [OF True assms] show ?thesis by simp
  next
    case (Some i)
    from find_in_set [OF Some] setChipGroupSingle_truthy [OF True assms] Some True
    show ?thesis by auto
  qed
qed








lemma clicked_parent_of: "parent_of (clicked cid k es doc) = parent_of doc"
  by (simp add: clicked_def)













lemmas chip_eval =
  setChipGroupSingle_def dispatch_at_def click_element_def run_listener_def chip_click_def chips_of_def
  active_chips_def classList_add_def classList_remove_def getActiveValue_def




text \<open>
  Claim C10. With a falsy default (none given, \<open>null\<close>, the empty string, 0, \<open>NaN\<close>,
  \<open>false\<close>) configuration leaves every container as it was, whatever values the chips
  carry. A container changed by configuration had a truthy default, and what changed is
  that one chip whose \<open>data-value\<close> is the string \<open>String(defaultVal)\<close> got the active
  marker; with a truthy default and such a chip present, the first such chip gets it.
\<close>

theorem setChipGroupSingle_default:
  "(\<not> truthy d \<longrightarrow> boxes (setChipGroupSingle cid d doc) = boxes doc) \<and>
   (boxes doc cid = Some es \<and> boxes (setChipGroupSingle cid d doc) cid \<noteq> Some es \<longrightarrow>
      truthy d \<and>
      (\<exists>i \<in> set (chips_of es). dataset_value (es ! i) = Some (to_string d) \<and>
         boxes (setChipGroupSingle cid d doc) cid =
           Some (es[i := classList_add ''active'' (es ! i)]))) \<and>
   (truthy d \<and> boxes doc cid = Some es \<and> i \<in> set (chips_of es) \<and>
    dataset_value (es ! i) = Some (to_string d) \<longrightarrow>
      (\<exists>j \<in> set (chips_of es). j \<le> i \<and> dataset_value (es ! j) = Some (to_string d) \<and>
         boxes (setChipGroupSingle cid d doc) cid =
           Some (es[j := classList_add ''active'' (es ! j)])))"
proof (intro conjI impI)
  assume "\<not> truthy d"
  then show "boxes (setChipGroupSingle cid d doc) = boxes doc"
    by (rule setChipGroupSingle_falsy)
next
  assume h: "boxes doc cid = Some es \<and> boxes (setChipGroupSingle cid d doc) cid \<noteq> Some es"
  with setChipGroupSingle_box [of doc cid es d]
  show "truthy d" by auto
next
  assume h: "boxes doc cid = Some es \<and> boxes (setChipGroupSingle cid d doc) cid \<noteq> Some es"
  with setChipGroupSingle_box [of doc cid es d]
  show "\<exists>i \<in> set (chips_of es). dataset_value (es ! i) = Some (to_string d) \<and>
         boxes (setChipGroupSingle cid d doc) cid =
           Some (es[i := classList_add ''active'' (es ! i)])"
    by auto
next
  assume h: "truthy d \<and> boxes doc cid = Some es \<and> i \<in> set (chips_of es) \<and>
    dataset_value (es ! i) = Some (to_string d)"
  let ?P = "\<lambda>c. dataset_value (es ! c) = Some (to_string d)"
  show "\<exists>j \<in> set (chips_of es). j \<le> i \<and> dataset_value (es ! j) = Some (to_string d) \<and>
         boxes (setChipGroupSingle cid d doc) cid =
           Some (es[j := classList_add ''active'' (es ! j)])"
  proof (cases "find ?P (chips_of es)")
    case None
    from find_None_none [OF None, of i] h show ?thesis by simp
  next
    case (Some j)
    have "j \<le> i"
      using find_first_sorted [OF sorted_chips_of Some, of i] h by simp
    moreover have "j \<in> set (chips_of es) \<and> ?P j"
      using find_in_set [OF Some] .
    moreover have "boxes (setChipGroupSingle cid d doc) cid =
           Some (es[j := classList_add ''active'' (es ! j)])"
      using setChipGroupSingle_truthy [of d doc cid es] h Some by simp
    ultimately show ?thesis by blast
  qed
qed

theorem setChipGroupSingle_default_witness:
  "\<not> truthy (JStr []) \<and> \<not> truthy (JNum (Num 0)) \<and> \<not> truthy JNull \<and>
   dataset_value (odd_box ! 0) = Some (to_string (JStr [])) \<and>
   dataset_value (odd_box ! 1) = Some (to_string (JNum (Num 0))) \<and>
   dataset_value (odd_box ! 2) = Some (to_string JNull) \<and>
   boxes (setChipGroupSingle ''days_per_week'' (JStr []) odd_doc) = boxes odd_doc \<and>
   boxes (setChipGroupSingle ''days_per_week'' (JNum (Num 0)) odd_doc) = boxes odd_doc \<and>
   boxes (setChipGroupSingle ''days_per_week'' JNull odd_doc) = boxes odd_doc \<and>
   truthy (JNum (Num 4)) \<and> boxes odd_doc ''days_per_week'' = Some odd_box \<and>
   3 \<in> set (chips_of odd_box) \<and>
   dataset_value (odd_box ! 3) = Some (to_string (JNum (Num 4))) \<and>
   boxes (setChipGroupSingle ''days_per_week'' (JNum (Num 4)) odd_doc) ''days_per_week'' =
     Some (odd_box[3 := classList_add ''active'' (odd_box ! 3)])"
proof -
  have given: "\<not> truthy (JStr [])" "\<not> truthy (JNum (Num 0))" "\<not> truthy JNull"
    "dataset_value (odd_box ! 0) = Some (to_string (JStr []))"
    "dataset_value (odd_box ! 1) = Some (to_string (JNum (Num 0)))"
    "dataset_value (odd_box ! 2) = Some (to_string JNull)"
    "truthy (JNum (Num 4))" "boxes odd_doc ''days_per_week'' = Some odd_box"
    "3 \<in> set (chips_of odd_box)"
    "dataset_value (odd_box ! 3) = Some (to_string (JNum (Num 4)))"
    by (simp_all add: odd_doc_def odd_box_def chips_of_def upt_rec js_eval)
  have run: "boxes (setChipGroupSingle ''days_per_week'' (JNum (Num 4)) odd_doc) ''days_per_week'' =
     Some (odd_box[3 := classList_add ''active'' (odd_box ! 3)])"
    by (simp add: odd_doc_def odd_box_def chip_eval Let_def upt_rec js_eval)
  from setChipGroupSingle_default [where d = "JStr []" and cid = "''days_per_week''"
      and doc = odd_doc]
    setChipGroupSingle_default [where d = "JNum (Num 0)" and cid = "''days_per_week''"
      and doc = odd_doc]
    setChipGroupSingle_default [where d = JNull and cid = "''days_per_week''"
      and doc = odd_doc]
    given run
  show ?thesis by simp
qed

section \<open>The page: views and transcript\<close>

lemma showOnboarding_returns:
  "onboarding pg = Some ob \<Longrightarrow> chat pg = Some ch \<Longrightarrow>
   showOnboarding pg =
     Returns (pg\<lparr>onboarding := Some (ob - {''hidden''}), chat := Some (insert ''hidden'' ch)\<rparr>)"
  by (simp add: showOnboarding_def Let_def)

lemma showChat_returns:
  "onboarding pg = Some ob \<Longrightarrow> chat pg = Some ch \<Longrightarrow>
   showChat pg =
     Returns (pg\<lparr>onboarding := Some (insert ''hidden'' ob), chat := Some (ch - {''hidden''})\<rparr>)"
  by (simp add: showChat_def Let_def)

lemma addMessage_returns:
  "messages pg = Some list \<Longrightarrow>
   addMessage role text pg = Returns (pg\<lparr>messages := Some (posted (message_node role text) list)\<rparr>)"
  by (simp add: addMessage_def posted_def Let_def)

lemma children_posted: "children (posted n t) = children t @ [n]"
  by (simp add: posted_def set_scrollTop_def appendChild_def)

lemma max_scroll_set_scrollTop: "max_scroll (set_scrollTop v t) = max_scroll t"
  by (simp add: max_scroll_def scrollHeight_def set_scrollTop_def)

lemma scrollTop_posted: "scrollTop (posted n t) = max_scroll (posted n t)"
  by (simp add: posted_def max_scroll_set_scrollTop)
     (simp add: set_scrollTop_def max_scroll_def)

lemma truthy_js_and: "truthy (js_and a b) \<longleftrightarrow> truthy a \<and> truthy b"
  by (simp add: js_and_def)

lemma to_string_js_or:
  "to_string (js_or a (JStr d)) = (if truthy a then to_string a else d)"
  by (simp add: js_or_def)

lemma call_view_returns:
  assumes "onboarding pg = Some ob" and "chat pg = Some ch"
  shows "call_view c pg =
     Returns (pg\<lparr>onboarding :=
                   Some (if c = ShowOnboarding then ob - {''hidden''} else insert ''hidden'' ob),
                 chat :=
                   Some (if c = ShowChat then ch - {''hidden''} else insert ''hidden'' ch)\<rparr>)"
  using assms by (cases c) (simp_all add: showOnboarding_returns showChat_returns)

lemma call_views_last:
  assumes "onboarding pg = Some ob" and "chat pg = Some ch" and "cs \<noteq> []"
  shows "visible (onboarding (call_views cs pg)) = (last cs = ShowOnboarding) \<and>
         visible (chat (call_views cs pg)) = (last cs = ShowChat)"
  using assms
proof (induction cs arbitrary: pg ob ch)
  case Nil
  then show ?case by simp
next
  case (Cons c cs)
  let ?ob = "if c = ShowOnboarding then ob - {''hidden''} else insert ''hidden'' ob"
  let ?ch = "if c = ShowChat then ch - {''hidden''} else insert ''hidden'' ch"
  let ?pg = "pg\<lparr>onboarding := Some ?ob, chat := Some ?ch\<rparr>"
  have r: "call_view c pg = Returns ?pg"
    using Cons.prems(1,2) by (rule call_view_returns)
  show ?case
  proof (cases "cs = []")
    case True
    with r show ?thesis by (cases c) (simp_all add: visible_def)
  next
    case False
    have "onboarding ?pg = Some ?ob" "chat ?pg = Some ?ch" by simp_all
    from Cons.IH [OF this False] r False show ?thesis by simp
  qed
qed

text \<open>
  Claim C8. On a page that has both view sections, after any non-empty sequence of
  \<open>showOnboarding()\<close> and \<open>showChat()\<close> calls exactly one section is unhidden: the
  onboarding section when the last call was \<open>showOnboarding\<close>, the chat section when it
  was \<open>showChat\<close>, whatever the earlier calls and the state before.
\<close>

theorem last_view_call_wins:
  assumes "onboarding pg = Some ob" and "chat pg = Some ch" and "cs \<noteq> []"
  shows "visible (onboarding (call_views cs pg)) = (last cs = ShowOnboarding) \<and>
         visible (chat (call_views cs pg)) = (last cs = ShowChat) \<and>
         visible (onboarding (call_views cs pg)) \<noteq> visible (chat (call_views cs pg))"
  using call_views_last [OF assms] by (cases "last cs") simp_all

theorem last_view_call_wins_witness:
  "onboarding fresh_page = Some {''card''} \<and> chat fresh_page = Some {''card'', ''hidden''} \<and>
   visible (onboarding (call_views [ShowOnboarding, ShowChat] fresh_page)) = False \<and>
   visible (chat (call_views [ShowOnboarding, ShowChat] fresh_page)) = True \<and>
   visible (onboarding (call_views [ShowChat, ShowOnboarding] fresh_page)) = True \<and>
   visible (chat (call_views [ShowChat, ShowOnboarding] fresh_page)) = False"
proof -
  have given: "onboarding fresh_page = Some {''card''}"
    "chat fresh_page = Some {''card'', ''hidden''}"
    by (simp_all add: fresh_page_def)
  from last_view_call_wins [OF given, of "[ShowOnboarding, ShowChat]"]
    last_view_call_wins [OF given, of "[ShowChat, ShowOnboarding]"] given
  show ?thesis by simp
qed

text \<open>
  Claim C9. On a page that has the transcript container, \<open>addMessage(role, text)\<close>
  returns for every role and text, and changes nothing but the container: it gains
  exactly one child, last, an element of class \<open>message\<close> plus the role, holding an
  avatar labelled \<open>GB\<close> when the role is the string \<open>assistant\<close> and \<open>You\<close> otherwise,
  and a bubble whose only content is the text as one text node (no node at all for an
  empty text); for a string the text is the string itself. Afterwards the container's
  scroll offset is its maximum.
\<close>

theorem addMessage_appends:
  assumes "messages pg = Some list"
  shows "\<exists>list'. addMessage role text pg = Returns (pg\<lparr>messages := Some list'\<rparr>) \<and>
           children list' = children list @
             [Element (''message '' @ to_string role)
                [Element ''avatar'' [Text (if role = JStr ''assistant'' then ''GB'' else ''You'')],
                 Element ''bubble'' (set_textContent (dom_string text))]] \<and>
           (\<forall>s. text = JStr s \<longrightarrow>
              set_textContent (dom_string text) = (if s = [] then [] else [Text s])) \<and>
           scrollTop list' = max_scroll list'"
proof -
  let ?l = "posted (message_node role text) list"
  have "addMessage role text pg = Returns (pg\<lparr>messages := Some ?l\<rparr>)"
    using assms by (rule addMessage_returns)
  moreover have "children ?l = children list @
             [Element (''message '' @ to_string role)
                [Element ''avatar'' [Text (if role = JStr ''assistant'' then ''GB'' else ''You'')],
                 Element ''bubble'' (set_textContent (dom_string text))]]"
    by (simp add: children_posted message_node_def set_textContent_def)
  moreover have "\<forall>s. text = JStr s \<longrightarrow>
              set_textContent (dom_string text) = (if s = [] then [] else [Text s])"
    by (simp add: set_textContent_def dom_string_def)
  moreover have "scrollTop ?l = max_scroll ?l"
    by (rule scrollTop_posted)
  ultimately show ?thesis by blast
qed

theorem addMessage_appends_witness:
  "messages fresh_page = Some empty_transcript \<and>
   (\<exists>list'. addMessage (JStr ''user'') (JStr ''<b>hi</b>'') fresh_page =
        Returns (fresh_page\<lparr>messages := Some list'\<rparr>) \<and>
      children list' =
        [Element ''message user''
           [Element ''avatar'' [Text ''You''], Element ''bubble'' [Text ''<b>hi</b>'']]] \<and>
      scrollTop list' = max_scroll list')"
proof -
  have given: "messages fresh_page = Some empty_transcript"
    by (simp add: fresh_page_def)
  have "children empty_transcript = []"
    by (simp add: empty_transcript_def)
  with addMessage_appends [OF given, of "JStr ''user''" "JStr ''<b>hi</b>''"] given
  show ?thesis by (simp add: set_textContent_def dom_string_def)
qed


lemma wire_listeners_keeps:
  "onboarding (state_of (wire_listeners pg)) = onboarding pg"
  "chat (state_of (wire_listeners pg)) = chat pg"
  "messages (state_of (wire_listeners pg)) = messages pg"
  by (simp_all add: wire_listeners_def Let_def)

text \<open>
  Claim C5. Let the page have both view sections and the transcript container, and let
  the profile request resolve with a body \<open>p\<close>. If \<open>p.ok\<close> and \<open>p.profile\<close> are both
  truthy (\<open>ok\<close> true and a profile present), then afterwards the chat section is visible,
  the onboarding section is hidden, and the transcript has gained exactly one message:
  an assistant message (label \<open>GB\<close>) whose text is \<open>Welcome back. Profile: \<close> followed
  by the profile summary. Otherwise the onboarding section is visible, the chat section
  is hidden and the transcript is as it was (empty if it was empty).
\<close>

theorem initialize_resume_views:
  assumes "onboarding pg = Some ob" and "chat pg = Some ch" and "messages pg = Some list"
  shows "(truthy (ok p) \<and> truthy (profile p) \<longrightarrow>
            visible (chat (state_of (initialize_resume (Resolved (Body p)) pg))) \<and>
            \<not> visible (onboarding (state_of (initialize_resume (Resolved (Body p)) pg))) \<and>
            (\<exists>list'. messages (state_of (initialize_resume (Resolved (Body p)) pg)) = Some list' \<and>
               children list' = children list @
                 [Element ''message assistant''
                    [Element ''avatar'' [Text ''GB''],
                     Element ''bubble''
                       [Text (''Welcome back. Profile: '' @ to_string (profile_summary p))]]])) \<and>
         (\<not> (truthy (ok p) \<and> truthy (profile p)) \<longrightarrow>
            visible (onboarding (state_of (initialize_resume (Resolved (Body p)) pg))) \<and>
            \<not> visible (chat (state_of (initialize_resume (Resolved (Body p)) pg))) \<and>
            messages (state_of (initialize_resume (Resolved (Body p)) pg)) = Some list)"
proof (cases "truthy (ok p) \<and> truthy (profile p)")
  case True
  let ?text = "JStr (''Welcome back. Profile: '' @ to_string (profile_summary p))"
  let ?pg1 = "pg\<lparr>onboarding := Some (insert ''hidden'' ob), chat := Some (ch - {''hidden''})\<rparr>"
  let ?pg2 = "?pg1\<lparr>messages := Some (posted (message_node (JStr ''assistant'') ?text) list)\<rparr>"
  have "showChat pg = Returns ?pg1"
    using assms(1,2) by (rule showChat_returns)
  moreover have "addMessage (JStr ''assistant'') ?text ?pg1 = Returns ?pg2"
    using assms(3) by (simp add: addMessage_returns)
  moreover have "truthy (js_and (ok p) (profile p))"
    using True by (simp add: truthy_js_and)
  ultimately have "initialize_resume (Resolved (Body p)) pg = wire_listeners ?pg2"
    by (simp add: initialize_resume_def)
  with True show ?thesis
    by (simp add: wire_listeners_keeps visible_def children_posted message_node_def
        set_textContent_def dom_string_def)
next
  case False
  let ?pg1 = "pg\<lparr>onboarding := Some (ob - {''hidden''}), chat := Some (insert ''hidden'' ch)\<rparr>"
  have "showOnboarding pg = Returns ?pg1"
    using assms(1,2) by (rule showOnboarding_returns)
  moreover have "\<not> truthy (js_and (ok p) (profile p))"
    using False by (simp add: truthy_js_and)
  ultimately have "initialize_resume (Resolved (Body p)) pg = wire_listeners ?pg1"
    by (simp add: initialize_resume_def)
  with False assms(3) show ?thesis
    by (simp add: wire_listeners_keeps visible_def)
qed

lemmas page_eval =
  fresh_page_def ready_page_def typing_page_def waiting_page_def empty_transcript_def
  no_body_def profile_found_def profile_missing_def onboarding_refused_def
  onboarding_done_def chat_reply_def chat_refused_def

theorem initialize_resume_views_witness:
  "onboarding fresh_page = Some {''card''} \<and> chat fresh_page = Some {''card'', ''hidden''} \<and>
   messages fresh_page = Some empty_transcript \<and> children empty_transcript = [] \<and>
   truthy (ok profile_found) \<and> truthy (profile profile_found) \<and>
   visible (chat (state_of (initialize_resume (Resolved (Body profile_found)) fresh_page))) \<and>
   \<not> visible (onboarding (state_of (initialize_resume (Resolved (Body profile_found)) fresh_page))) \<and>
   (\<exists>list'. messages (state_of (initialize_resume (Resolved (Body profile_found)) fresh_page)) =
        Some list' \<and>
      children list' =
        [Element ''message assistant''
           [Element ''avatar'' [Text ''GB''],
            Element ''bubble'' [Text ''Welcome back. Profile: 5x/week hypertrophy plan'']]]) \<and>
   \<not> truthy (ok profile_missing) \<and>
   visible (onboarding (state_of (initialize_resume (Resolved (Body profile_missing)) fresh_page))) \<and>
   \<not> visible (chat (state_of (initialize_resume (Resolved (Body profile_missing)) fresh_page))) \<and>
   messages (state_of (initialize_resume (Resolved (Body profile_missing)) fresh_page)) =
     Some empty_transcript"
proof -
  have given: "onboarding fresh_page = Some {''card''}"
    "chat fresh_page = Some {''card'', ''hidden''}"
    "messages fresh_page = Some empty_transcript"
    by (simp_all add: fresh_page_def)
  have more: "children empty_transcript = []"
    "truthy (ok profile_found)" "truthy (profile profile_found)"
    "\<not> truthy (ok profile_missing)"
    "to_string (profile_summary profile_found) = ''5x/week hypertrophy plan''"
    by (simp_all add: page_eval)
  from initialize_resume_views [OF given, of profile_found]
    initialize_resume_views [OF given, of profile_missing] given more
  show ?thesis by simp
qed

text \<open>
  Claim C6. When the onboarding submission resolves with a body \<open>res\<close> whose \<open>ok\<close> is
  falsy, the only effect is one \<open>alert\<close>: of \<open>res.error\<close> when it is truthy (the
  server's error string), of the fixed text otherwise; the two view sections and the
  transcript are as before, so a visible onboarding view stays visible and a hidden chat
  view stays hidden. When \<open>ok\<close> is truthy, on a page with both sections and the
  transcript container, the chat section is unhidden, the onboarding section hidden and
  exactly one assistant message \<open>Your profile: \<close> plus the summary is appended, with no
  alert.
\<close>

theorem start_resume_outcomes:
  assumes "onboarding pg = Some ob" and "chat pg = Some ch" and "messages pg = Some list"
  shows "(\<not> truthy (ok res) \<longrightarrow>
            start_resume (Resolved (Body res)) pg =
              Returns (pg\<lparr>alerts := alerts pg @
                [if truthy (error res) then to_string (error res)
                 else ''Please complete the required fields.'']\<rparr>)) \<and>
         (truthy (ok res) \<longrightarrow>
            (\<exists>list'. start_resume (Resolved (Body res)) pg =
               Returns (pg\<lparr>onboarding := Some (insert ''hidden'' ob),
                            chat := Some (ch - {''hidden''}),
                            messages := Some list'\<rparr>) \<and>
               children list' = children list @
                 [Element ''message assistant''
                    [Element ''avatar'' [Text ''GB''],
                     Element ''bubble''
                       [Text (''Your profile: '' @ to_string (profile_summary res))]]]))"
proof (intro conjI impI)
  assume "\<not> truthy (ok res)"
  then show "start_resume (Resolved (Body res)) pg =
              Returns (pg\<lparr>alerts := alerts pg @
                [if truthy (error res) then to_string (error res)
                 else ''Please complete the required fields.'']\<rparr>)"
    by (simp add: start_resume_def to_string_js_or)
next
  assume t: "truthy (ok res)"
  let ?text = "JStr (''Your profile: '' @ to_string (profile_summary res))"
  let ?pg1 = "pg\<lparr>onboarding := Some (insert ''hidden'' ob), chat := Some (ch - {''hidden''})\<rparr>"
  let ?l = "posted (message_node (JStr ''assistant'') ?text) list"
  have "showChat pg = Returns ?pg1"
    using assms(1,2) by (rule showChat_returns)
  moreover have "addMessage (JStr ''assistant'') ?text ?pg1 = Returns (?pg1\<lparr>messages := Some ?l\<rparr>)"
    using assms(3) by (simp add: addMessage_returns)
  ultimately have "start_resume (Resolved (Body res)) pg = Returns (?pg1\<lparr>messages := Some ?l\<rparr>)"
    using t by (simp add: start_resume_def)
  moreover have "children ?l = children list @
                 [Element ''message assistant''
                    [Element ''avatar'' [Text ''GB''],
                     Element ''bubble''
                       [Text (''Your profile: '' @ to_string (profile_summary res))]]]"
    by (simp add: children_posted message_node_def set_textContent_def dom_string_def)
  ultimately show "\<exists>list'. start_resume (Resolved (Body res)) pg =
               Returns (pg\<lparr>onboarding := Some (insert ''hidden'' ob),
                            chat := Some (ch - {''hidden''}),
                            messages := Some list'\<rparr>) \<and>
               children list' = children list @
                 [Element ''message assistant''
                    [Element ''avatar'' [Text ''GB''],
                     Element ''bubble''
                       [Text (''Your profile: '' @ to_string (profile_summary res))]]]"
    by blast
qed

theorem start_resume_outcomes_witness:
  "onboarding fresh_page = Some {''card''} \<and> chat fresh_page = Some {''card'', ''hidden''} \<and>
   messages fresh_page = Some empty_transcript \<and>
   \<not> truthy (ok onboarding_refused) \<and>
   start_resume (Resolved (Body onboarding_refused)) fresh_page =
     Returns (fresh_page\<lparr>alerts := [''Age is required'']\<rparr>) \<and>
   \<not> truthy (ok profile_missing) \<and>
   start_resume (Resolved (Body profile_missing)) fresh_page =
     Returns (fresh_page\<lparr>alerts := [''Please complete the required fields.'']\<rparr>) \<and>
   truthy (ok onboarding_done) \<and>
   (\<exists>list'. start_resume (Resolved (Body onboarding_done)) fresh_page =
        Returns (fresh_page\<lparr>onboarding := Some {''hidden'', ''card''},
                            chat := Some {''card''}, messages := Some list'\<rparr>) \<and>
      children list' =
        [Element ''message assistant''
           [Element ''avatar'' [Text ''GB''],
            Element ''bubble'' [Text ''Your profile: 3x/week plan'']]])"
proof -
  have given: "onboarding fresh_page = Some {''card''}"
    "chat fresh_page = Some {''card'', ''hidden''}"
    "messages fresh_page = Some empty_transcript"
    by (simp_all add: fresh_page_def)
  have more: "children empty_transcript = []" "alerts fresh_page = []"
    "\<not> truthy (ok onboarding_refused)" "truthy (error onboarding_refused)"
    "to_string (error onboarding_refused) = ''Age is required''"
    "\<not> truthy (ok profile_missing)" "\<not> truthy (error profile_missing)"
    "truthy (ok onboarding_done)"
    "to_string (profile_summary onboarding_done) = ''3x/week plan''"
    by (simp_all add: page_eval)
  have diff: "{''card'', ''hidden''} - {''hidden''} = {''card''}"
    by auto
  from start_resume_outcomes [OF given, of onboarding_refused]
    start_resume_outcomes [OF given, of profile_missing]
    start_resume_outcomes [OF given, of onboarding_done] given more diff
  show ?thesis by (simp add: insert_commute)
qed


lemma truthy_to_string: "truthy v \<Longrightarrow> dom_string v = to_string v \<and> to_string v \<noteq> []"
proof (cases v)
  case (JNum n)
  assume "truthy v"
  with JNum show ?thesis
    using number_to_string_nonempty [of n] by (simp add: dom_string_def)
qed (auto simp: dom_string_def)

lemma message_node_js_or:
  "message_node role (js_or e (JStr d)) =
     message_node role (JStr (if truthy e then to_string e else d))"
  using truthy_to_string [of e]
  by (simp add: message_node_def js_or_def dom_string_def)

lemma send_resume_returns:
  assumes "messages pg = Some list" and "sendBtn pg = Some d"
  shows "send_resume f pg =
     Returns (pg\<lparr>messages := Some (posted (message_node (JStr ''assistant'')
                 (case f of
                    Rejected \<Rightarrow> JStr ''Network error.''
                  | Resolved NullBody \<Rightarrow> JStr ''Network error.''
                  | Resolved (Body res) \<Rightarrow>
                      if truthy (ok res) then reply res
                      else js_or (error res) (JStr ''Error generating reply.'')))
               list),
              sendBtn := Some False\<rparr>)"
proof (cases f)
  case Rejected
  with assms show ?thesis
    by (simp add: send_resume_def addMessage_returns)
next
  case (Resolved b)
  show ?thesis
  proof (cases b)
    case NullBody
    with Resolved assms show ?thesis
      by (simp add: send_resume_def addMessage_returns)
  next
    case (Body res)
    with Resolved assms show ?thesis
      by (simp add: send_resume_def addMessage_returns)
  qed
qed

text \<open>
  Claim C7. On a page with the chat input, the transcript container and the send
  button: when the trimmed input is empty \<open>send\<close> changes nothing, so no message is
  appended and no request is issued. Otherwise, up to its \<open>await\<close>, it clears the
  input, appends one user message holding the trimmed text, disables the send button and
  issues one chat request carrying the trimmed text. When that request settles, one
  assistant message is appended: with the reply when \<open>ok\<close> is truthy, with
  \<open>res.error\<close> when \<open>ok\<close> is falsy and the error truthy, with \<open>Error generating
  reply.\<close> when both are falsy, and with \<open>Network error.\<close> when the request was
  rejected; in every case the send button ends enabled.
\<close>

theorem send_flow:
  assumes "chatInput pg = Some v" and "messages pg = Some list" and "sendBtn pg = Some d"
  shows "(trim v = [] \<longrightarrow> send_begin pg = Returns pg) \<and>
         (trim v \<noteq> [] \<longrightarrow>
            (\<exists>list'. send_begin pg =
               Returns (pg\<lparr>chatInput := Some [], messages := Some list',
                            sendBtn := Some True,
                            pending_chat := pending_chat pg @ [trim v]\<rparr>) \<and>
               children list' = children list @
                 [Element ''message user''
                    [Element ''avatar'' [Text ''You''], Element ''bubble'' [Text (trim v)]]])) \<and>
         (truthy (ok res) \<longrightarrow>
            (\<exists>list'. send_resume (Resolved (Body res)) pg =
               Returns (pg\<lparr>messages := Some list', sendBtn := Some False\<rparr>) \<and>
               children list' = children list @
                 [Element ''message assistant''
                    [Element ''avatar'' [Text ''GB''],
                     Element ''bubble'' (set_textContent (dom_string (reply res)))]])) \<and>
         (\<not> truthy (ok res) \<longrightarrow>
            (\<exists>list'. send_resume (Resolved (Body res)) pg =
               Returns (pg\<lparr>messages := Some list', sendBtn := Some False\<rparr>) \<and>
               children list' = children list @
                 [Element ''message assistant''
                    [Element ''avatar'' [Text ''GB''],
                     Element ''bubble''
                       [Text (if truthy (error res) then to_string (error res)
                              else ''Error generating reply.'')]]])) \<and>
         (\<exists>list'. send_resume Rejected pg =
            Returns (pg\<lparr>messages := Some list', sendBtn := Some False\<rparr>) \<and>
            children list' = children list @
              [Element ''message assistant''
                 [Element ''avatar'' [Text ''GB''],
                  Element ''bubble'' [Text ''Network error.'']]])"
proof (intro conjI impI)
  assume "trim v = []"
  with assms(1) show "send_begin pg = Returns pg"
    by (simp add: send_begin_def)
next
  assume t: "trim v \<noteq> []"
  let ?n = "message_node (JStr ''user'') (JStr (trim v))"
  let ?pg1 = "pg\<lparr>chatInput := Some []\<rparr>"
  have "addMessage (JStr ''user'') (JStr (trim v)) ?pg1 =
          Returns (?pg1\<lparr>messages := Some (posted ?n list)\<rparr>)"
    using assms(2) by (simp add: addMessage_returns)
  with assms(1,3) t have "send_begin pg =
      Returns (pg\<lparr>chatInput := Some [], messages := Some (posted ?n list),
                   sendBtn := Some True, pending_chat := pending_chat pg @ [trim v]\<rparr>)"
    by (simp add: send_begin_def Let_def)
  moreover have "children (posted ?n list) = children list @
                 [Element ''message user''
                    [Element ''avatar'' [Text ''You''], Element ''bubble'' [Text (trim v)]]]"
    using t by (simp add: children_posted message_node_def set_textContent_def dom_string_def)
  ultimately show "\<exists>list'. send_begin pg =
               Returns (pg\<lparr>chatInput := Some [], messages := Some list',
                            sendBtn := Some True,
                            pending_chat := pending_chat pg @ [trim v]\<rparr>) \<and>
               children list' = children list @
                 [Element ''message user''
                    [Element ''avatar'' [Text ''You''], Element ''bubble'' [Text (trim v)]]]"
    by blast
next
  assume t: "truthy (ok res)"
  let ?l = "posted (message_node (JStr ''assistant'') (reply res)) list"
  have "send_resume (Resolved (Body res)) pg =
          Returns (pg\<lparr>messages := Some ?l, sendBtn := Some False\<rparr>)"
    using send_resume_returns [OF assms(2,3), of "Resolved (Body res)"] t by simp
  moreover have "children ?l = children list @
                 [Element ''message assistant''
                    [Element ''avatar'' [Text ''GB''],
                     Element ''bubble'' (set_textContent (dom_string (reply res)))]]"
    by (simp add: children_posted message_node_def set_textContent_def)
  ultimately show "\<exists>list'. send_resume (Resolved (Body res)) pg =
               Returns (pg\<lparr>messages := Some list', sendBtn := Some False\<rparr>) \<and>
               children list' = children list @
                 [Element ''message assistant''
                    [Element ''avatar'' [Text ''GB''],
                     Element ''bubble'' (set_textContent (dom_string (reply res)))]]"
    by blast
next
  assume f: "\<not> truthy (ok res)"
  let ?s = "if truthy (error res) then to_string (error res) else ''Error generating reply.''"
  let ?l = "posted (message_node (JStr ''assistant'') (JStr ?s)) list"
  have "send_resume (Resolved (Body res)) pg =
          Returns (pg\<lparr>messages := Some ?l, sendBtn := Some False\<rparr>)"
    using send_resume_returns [OF assms(2,3), of "Resolved (Body res)"] f
    by (simp add: message_node_js_or)
  moreover have "?s \<noteq> []"
    using truthy_to_string [of "error res"] by simp
  then have "children ?l = children list @
                 [Element ''message assistant''
                    [Element ''avatar'' [Text ''GB''], Element ''bubble'' [Text ?s]]]"
    by (simp add: children_posted message_node_def set_textContent_def dom_string_def)
  ultimately show "\<exists>list'. send_resume (Resolved (Body res)) pg =
               Returns (pg\<lparr>messages := Some list', sendBtn := Some False\<rparr>) \<and>
               children list' = children list @
                 [Element ''message assistant''
                    [Element ''avatar'' [Text ''GB''],
                     Element ''bubble''
                       [Text (if truthy (error res) then to_string (error res)
                              else ''Error generating reply.'')]]]"
    by blast
next
  let ?l = "posted (message_node (JStr ''assistant'') (JStr ''Network error.'')) list"
  have "send_resume Rejected pg = Returns (pg\<lparr>messages := Some ?l, sendBtn := Some False\<rparr>)"
    using send_resume_returns [OF assms(2,3), of Rejected] by simp
  moreover have "children ?l = children list @
              [Element ''message assistant''
                 [Element ''avatar'' [Text ''GB''],
                  Element ''bubble'' [Text ''Network error.'']]]"
    by (simp add: children_posted message_node_def set_textContent_def dom_string_def)
  ultimately show "\<exists>list'. send_resume Rejected pg =
            Returns (pg\<lparr>messages := Some list', sendBtn := Some False\<rparr>) \<and>
            children list' = children list @
              [Element ''message assistant''
                 [Element ''avatar'' [Text ''GB''],
                  Element ''bubble'' [Text ''Network error.'']]]"
    by blast
qed

theorem send_flow_witness:
  "chatInput blank_typing_page = Some ''   '' \<and> trim ''   '' = [] \<and>
   send_begin blank_typing_page = Returns blank_typing_page \<and>
   chatInput typing_page = Some ''  hello '' \<and> trim ''  hello '' = ''hello'' \<and>
   messages typing_page = Some empty_transcript \<and> sendBtn typing_page = Some False \<and>
   (\<exists>list'. send_begin typing_page =
        Returns (typing_page\<lparr>chatInput := Some [], messages := Some list',
                             sendBtn := Some True, pending_chat := [''hello'']\<rparr>) \<and>
      children list' =
        [Element ''message user''
           [Element ''avatar'' [Text ''You''], Element ''bubble'' [Text ''hello'']]]) \<and>
   truthy (ok chat_reply) \<and>
   (\<exists>list'. send_resume (Resolved (Body chat_reply)) waiting_page =
        Returns (waiting_page\<lparr>messages := Some list', sendBtn := Some False\<rparr>) \<and>
      children list' =
        [Element ''message assistant''
           [Element ''avatar'' [Text ''GB''], Element ''bubble'' [Text ''Hi there'']]]) \<and>
   \<not> truthy (ok chat_refused) \<and>
   (\<exists>list'. send_resume (Resolved (Body chat_refused)) waiting_page =
        Returns (waiting_page\<lparr>messages := Some list', sendBtn := Some False\<rparr>) \<and>
      children list' =
        [Element ''message assistant''
           [Element ''avatar'' [Text ''GB''], Element ''bubble'' [Text ''Rate limited'']]]) \<and>
   (\<exists>list'. send_resume Rejected waiting_page =
        Returns (waiting_page\<lparr>messages := Some list', sendBtn := Some False\<rparr>) \<and>
      children list' =
        [Element ''message assistant''
           [Element ''avatar'' [Text ''GB''], Element ''bubble'' [Text ''Network error.'']]])"
proof -
  have blank: "chatInput blank_typing_page = Some ''   ''"
    "messages blank_typing_page = Some empty_transcript" "sendBtn blank_typing_page = Some False"
    by (simp_all add: blank_typing_page_def page_eval)
  have typing: "chatInput typing_page = Some ''  hello ''"
    "messages typing_page = Some empty_transcript" "sendBtn typing_page = Some False"
    by (simp_all add: page_eval)
  have waiting: "chatInput waiting_page = Some []"
    "messages waiting_page = Some empty_transcript" "sendBtn waiting_page = Some True"
    by (simp_all add: page_eval)
  have more: "trim ''   '' = []" "trim ''  hello '' = ''hello''"
    "children empty_transcript = []" "pending_chat typing_page = []"
    "truthy (ok chat_reply)" "dom_string (reply chat_reply) = ''Hi there''"
    "\<not> truthy (ok chat_refused)" "truthy (error chat_refused)"
    "to_string (error chat_refused) = ''Rate limited''"
    by (simp_all add: page_eval trim_def is_space_def dom_string_def)
  from send_flow [OF blank, of chat_reply] send_flow [OF typing, of chat_reply]
    send_flow [OF waiting, of chat_reply] send_flow [OF waiting, of chat_refused]
    blank typing more
  show ?thesis by (simp add: set_textContent_def)
qed

lemma click_send_guarded: "sendBtn pg = Some True \<Longrightarrow> step ClickSend pg = pg"
  by simp

text \<open>
  Claim C4, run on the code. From a page on which \<open>initialize\<close> has registered its
  listeners, the user types \<open>a\<close> and presses Enter: one chat request is pending and the
  send button is disabled. While it is pending the user types \<open>b\<close>. A click on the
  disabled send button issues nothing; pressing Enter issues a second request, so two
  chat requests are in flight at once.
\<close>

theorem enter_key_bypasses_send_guard:
  "sendBtn (run [TypeText ''a'', PressEnter] ready_page) = Some True \<and>
   pending_chat (run [TypeText ''a'', PressEnter] ready_page) = [''a''] \<and>
   pending_chat (run [TypeText ''a'', PressEnter, TypeText ''b'', ClickSend] ready_page) = [''a''] \<and>
   pending_chat (run [TypeText ''a'', PressEnter, TypeText ''b'', PressEnter] ready_page) =
     [''a'', ''b'']"
  by (simp add: page_eval send_begin_def addMessage_def Let_def trim_def is_space_def)


end
